theory Spec2Isabelle
  imports Complex_Main "HOL-Library.Word"
begin

unbundle bit_operations_syntax

section \<open>The DSP frame processor\<close>

text \<open>
  The embedding of \<^verbatim>\<open>rnnoise_wrapper.h\<close> and \<^verbatim>\<open>rnnoise_wrapper.cpp\<close>. It
  follows the adaptive-floor version of the wrapper (the first translation unit of
  \<^verbatim>\<open>rnnoise_wrapper.cpp\<close>, with the header that declares
  \<^verbatim>\<open>BiquadState\<close>). Conventions:
  \<^item> a C++ \<^verbatim>\<open>float\<close> is a \<^typ>\<open>real\<close>: finite values with exact arithmetic;
    rounding, infinities and NaN are outside this model (a later section repeats the
    wrapper with overflow, infinities and NaN);
  \<^item> \<^verbatim>\<open>uint64_t\<close> is \<^typ>\<open>64 word\<close>, \<^verbatim>\<open>uint32_t\<close> is \<^typ>\<open>32 word\<close>,
    the \<^verbatim>\<open>int\<close> hold counter is an \<^typ>\<open>int\<close> (it is only set to 15 and
    decremented while positive);
  \<^item> a pointer that may be \<^verbatim>\<open>nullptr\<close> is an \<^typ>\<open>'a option\<close>;
  \<^item> an atomic cell is a plain field (each has one writer; the properties below are about one
    thread's view);
  \<^item> member names lose their trailing underscore;
  \<^item> a frame is a list of samples; the loops over \<^verbatim>\<open>i < kRNNoiseFrameSize\<close>
    are maps and folds over the list, which is what they are on a frame of exactly
    480 samples.
\<close>

subsection \<open>Tuning constants\<close>

definition kRNNoiseFrameSize :: nat where "kRNNoiseFrameSize = 480"
definition kGateCloseCoeff :: real where "kGateCloseCoeff = 0.40"
definition kGateOpenCoeff :: real where "kGateOpenCoeff = 0.15"
definition kMinGateGain :: real where "kMinGateGain = 0"
definition kHoldFrames :: int where "kHoldFrames = 15"
definition kVadHysteresis :: real where "kVadHysteresis = 0.12"
definition kCalibrationPeriod :: "64 word" where "kCalibrationPeriod = 200"
definition kCalibrationAlpha :: real where "kCalibrationAlpha = 0.08"
definition kTrackingAlpha :: real where "kTrackingAlpha = 0.005"
definition kFloorMultiplier :: real where "kFloorMultiplier = 1.5"
definition kAbsoluteMinFloor :: real where "kAbsoluteMinFloor = 0.0003"
definition kFallbackThreshold :: real where "kFallbackThreshold = 0.002"
definition kSpectralClampMult :: real where "kSpectralClampMult = 2.0"
definition kClampGateThreshold :: real where "kClampGateThreshold = 0.3"
definition kSoftSilenceLevel :: real where "kSoftSilenceLevel = 0.001"
definition kNoiseShapeCoeff :: real where "kNoiseShapeCoeff = 0.7"
definition kSoftSilenceGateThresh :: real where "kSoftSilenceGateThresh = 0.1"

subsection \<open>The standard library's max and clamp\<close>

text \<open>
  \<^verbatim>\<open>std::max(a, b)\<close> is \<^verbatim>\<open>(a < b) ? b : a\<close> and \<^verbatim>\<open>std::clamp(v, lo, hi)\<close> is
  \<^verbatim>\<open>(v < lo) ? lo : (hi < v) ? hi : v\<close>.
\<close>

definition std_max :: "real \<Rightarrow> real \<Rightarrow> real" where
  "std_max a b = (if a < b then b else a)"

definition std_clamp :: "real \<Rightarrow> real \<Rightarrow> real \<Rightarrow> real" where
  "std_clamp v lo hi = (if v < lo then lo else if hi < v then hi else v)"

subsection \<open>Data\<close>

record AudioMetrics =
  inputRms :: real
  outputRms :: real
  vadProbability :: real
  currentGain :: real
  noiseFloor :: real
  framesProcessed :: "64 word"

record BiquadState =
  b0 :: real
  b1 :: real
  b2 :: real
  a1 :: real
  a2 :: real
  x1 :: real
  x2 :: real
  y1 :: real
  y2 :: real

text \<open>
  The wrapper object. \<^typ>\<open>'d\<close> is the denoiser's opaque \<^verbatim>\<open>DenoiseState\<close>;
  \<open>state\<close> and \<open>state2\<close> are the two handles.
\<close>

record 'd RNNoiseWrapper =
  state :: "'d option"
  state2 :: "'d option"
  suppressionLevel :: real
  vadThreshold :: real
  comfortNoiseEnabled :: bool
  smoothGain :: real
  holdCounter :: int
  noiseFloorEstimate :: real
  calibrationFrames :: "64 word"
  hpf :: BiquadState
  lpf :: BiquadState
  noiseState :: "32 word"
  prevNoise :: real
  metrics :: AudioMetrics

text \<open>The default member initialisers of the header: the object as constructed.\<close>

definition AudioMetrics_default :: AudioMetrics where
  "AudioMetrics_default =
     \<lparr>inputRms = 0, outputRms = 0, vadProbability = 0, currentGain = 1,
      noiseFloor = 0, framesProcessed = 0\<rparr>"

definition BiquadState_default :: BiquadState where
  "BiquadState_default =
     \<lparr>b0 = 1, b1 = 0, b2 = 0, a1 = 0, a2 = 0, x1 = 0, x2 = 0, y1 = 0, y2 = 0\<rparr>"

definition RNNoiseWrapper_default :: "'d RNNoiseWrapper" where
  "RNNoiseWrapper_default =
     \<lparr>state = None, state2 = None, suppressionLevel = 1, vadThreshold = 0.65,
      comfortNoiseEnabled = True, smoothGain = 1, holdCounter = 0,
      noiseFloorEstimate = 0, calibrationFrames = 0,
      hpf = BiquadState_default, lpf = BiquadState_default,
      noiseState = 0x12345678, prevNoise = 0, metrics = AudioMetrics_default\<rparr>"

subsection \<open>Biquad filter\<close>

definition reset :: "BiquadState \<Rightarrow> BiquadState" where
  "reset f = f\<lparr>x1 := 0, x2 := 0, y1 := 0, y2 := 0\<rparr>"

text \<open>\<^verbatim>\<open>BiquadState::process\<close>: the output sample and the shifted delay line.\<close>

definition process :: "BiquadState \<Rightarrow> real \<Rightarrow> real \<times> BiquadState" where
  "process f x =
     (let y = b0 f * x + b1 f * x1 f + b2 f * x2 f - a1 f * y1 f - a2 f * y2 f
      in (y, f\<lparr>x2 := x1 f, x1 := x, y2 := y1 f, y1 := y\<rparr>))"

subsection \<open>Lifecycle\<close>

definition initFilters :: "'d RNNoiseWrapper \<Rightarrow> 'd RNNoiseWrapper" where
  "initFilters w =
     (let w1 = w\<lparr>hpf := reset ((hpf w)\<lparr>b0 := 0.992631, b1 := - 1.985261, b2 := 0.992631,
                                      a1 := - 1.985199, a2 := 0.985323\<rparr>)\<rparr>
      in w1\<lparr>lpf := reset ((lpf w1)\<lparr>b0 := 0.155029, b1 := 0.310059, b2 := 0.155029,
                                     a1 := - 0.620209, a2 := 0.240326\<rparr>)\<rparr>)"

definition destroy :: "'d RNNoiseWrapper \<Rightarrow> 'd RNNoiseWrapper" where
  "destroy w =
     (let w1 = (if state w \<noteq> None then w\<lparr>state := None\<rparr> else w)
      in if state2 w1 \<noteq> None then w1\<lparr>state2 := None\<rparr> else w1)"

text \<open>
  \<^verbatim>\<open>RNNoiseWrapper::init\<close>. The two results of \<^verbatim>\<open>rnnoise_create(nullptr)\<close> are
  the parameters \<open>c1\<close> and \<open>c2\<close> (\<open>None\<close> when the library returns a null
  pointer). The result is the returned flag and the object.
\<close>

definition init :: "'d option \<Rightarrow> 'd option \<Rightarrow> 'd RNNoiseWrapper \<Rightarrow> bool \<times> 'd RNNoiseWrapper" where
  "init c1 c2 w =
     (let w0 = (if state w \<noteq> None then destroy w else w);
          w1 = w0\<lparr>state := c1, state2 := c2\<rparr>;
          w2 = w1\<lparr>smoothGain := 1, holdCounter := 0, noiseFloorEstimate := 0,
                  calibrationFrames := 0, noiseState := 0x12345678, prevNoise := 0\<rparr>;
          w3 = initFilters w2;
          w4 = w3\<lparr>metrics := (metrics w3)\<lparr>framesProcessed := 0, inputRms := 0,
                  outputRms := 0, vadProbability := 0, currentGain := 1, noiseFloor := 0\<rparr>\<rparr>
      in (state w4 \<noteq> None \<and> state2 w4 \<noteq> None, w4))"

subsection \<open>Settings\<close>

definition setSuppressionLevel :: "real \<Rightarrow> 'd RNNoiseWrapper \<Rightarrow> 'd RNNoiseWrapper" where
  "setSuppressionLevel level w = w\<lparr>suppressionLevel := std_clamp level 0 1\<rparr>"

definition setVadThreshold :: "real \<Rightarrow> 'd RNNoiseWrapper \<Rightarrow> 'd RNNoiseWrapper" where
  "setVadThreshold threshold w = w\<lparr>vadThreshold := std_clamp threshold 0 1\<rparr>"

definition setComfortNoise :: "bool \<Rightarrow> 'd RNNoiseWrapper \<Rightarrow> 'd RNNoiseWrapper" where
  "setComfortNoise enabled w = w\<lparr>comfortNoiseEnabled := enabled\<rparr>"

subsection \<open>Helpers\<close>

text \<open>\<^verbatim>\<open>computeRms(buf, len)\<close>: the loop sums the squares of the first \<open>len\<close> samples.\<close>

definition computeRms :: "real list \<Rightarrow> nat \<Rightarrow> real" where
  "computeRms buf len = sqrt (foldl (\<lambda>sum x. sum + x * x) 0 (take len buf) / real len)"

text \<open>
  \<^verbatim>\<open>comfortNoiseSample\<close>: one xorshift32 step on the 32-bit state, the state read as
  a signed 32-bit integer and divided by \<open>2^31\<close>, then the one-pole shaping filter.
\<close>

definition comfortNoiseSample :: "'d RNNoiseWrapper \<Rightarrow> real \<times> 'd RNNoiseWrapper" where
  "comfortNoiseSample w =
     (let n1 = noiseState w XOR push_bit 13 (noiseState w);
          n2 = n1 XOR drop_bit 17 n1;
          n3 = n2 XOR push_bit 5 n2;
          white = real_of_int (sint n3) / 2147483648;
          shaped = kNoiseShapeCoeff * prevNoise w + (1 - kNoiseShapeCoeff) * white
      in (shaped * kSoftSilenceLevel, w\<lparr>noiseState := n3, prevNoise := shaped\<rparr>))"

subsection \<open>Adaptive noise floor\<close>

definition updateNoiseFloor :: "real \<Rightarrow> real \<Rightarrow> 'd RNNoiseWrapper \<Rightarrow> 'd RNNoiseWrapper" where
  "updateNoiseFloor postRms vad w =
     (let vadThresh = vadThreshold w;
          isNoise = (vad < vadThresh * 0.5)
      in if \<not> isNoise
         then w\<lparr>metrics := (metrics w)\<lparr>noiseFloor := noiseFloorEstimate w\<rparr>\<rparr>
         else
           (let (alpha, w1) =
                  (if calibrationFrames w < kCalibrationPeriod
                   then (kCalibrationAlpha, w\<lparr>calibrationFrames := calibrationFrames w + 1\<rparr>)
                   else (kTrackingAlpha, w));
                w2 = (if noiseFloorEstimate w1 \<le> 0
                      then w1\<lparr>noiseFloorEstimate := postRms\<rparr>
                      else w1\<lparr>noiseFloorEstimate :=
                                noiseFloorEstimate w1 + alpha * (postRms - noiseFloorEstimate w1)\<rparr>);
                w3 = w2\<lparr>noiseFloorEstimate := std_max (noiseFloorEstimate w2) kAbsoluteMinFloor\<rparr>
            in w3\<lparr>metrics := (metrics w3)\<lparr>noiseFloor := noiseFloorEstimate w3\<rparr>\<rparr>))"

subsection \<open>Gate state machine\<close>

text \<open>\<^verbatim>\<open>computeGateTarget\<close>: the returned target gain and the object (the hold counter).\<close>

definition computeGateTarget :: "real \<Rightarrow> real \<Rightarrow> 'd RNNoiseWrapper \<Rightarrow> real \<times> 'd RNNoiseWrapper" where
  "computeGateTarget vad postRms w =
     (let vadThresh = vadThreshold w;
          gateThresh = (if noiseFloorEstimate w > kAbsoluteMinFloor
                        then noiseFloorEstimate w * kFloorMultiplier
                        else kFallbackThreshold);
          speechByVad = (vad \<ge> vadThresh);
          speechByEnergy = (vad \<ge> vadThresh - kVadHysteresis \<and> postRms > gateThresh * 2.0)
      in if speechByVad \<or> speechByEnergy then (1, w\<lparr>holdCounter := kHoldFrames\<rparr>)
         else if holdCounter w > 0 then (1, w\<lparr>holdCounter := holdCounter w - 1\<rparr>)
         else if postRms < gateThresh then (kMinGateGain, w)
         else (let ratio = (postRms - gateThresh) / std_max gateThresh 0.0001
               in (std_clamp ratio kMinGateGain 0.5, w)))"

subsection \<open>Spectral floor clamp and soft silence\<close>

definition spectralClamp :: "real list \<Rightarrow> real \<Rightarrow> 'd RNNoiseWrapper \<Rightarrow> real list" where
  "spectralClamp frame vad w =
     (let vadThresh = vadThreshold w
      in if vad \<ge> vadThresh \<or> smoothGain w > kClampGateThreshold then frame
         else (let clampThresh = std_max (noiseFloorEstimate w * kSpectralClampMult)
                                         (kAbsoluteMinFloor * 3.0)
               in map (\<lambda>s. if \<bar>s\<bar> < clampThresh then 0 else s) frame))"

text \<open>The loop of \<^verbatim>\<open>applySoftSilence\<close>: one comfort-noise sample per frame sample.\<close>

fun softSilenceLoop :: "real \<Rightarrow> real list \<Rightarrow> 'd RNNoiseWrapper \<Rightarrow> real list \<times> 'd RNNoiseWrapper" where
  "softSilenceLoop scale [] w = ([], w)"
| "softSilenceLoop scale (s # rest) w =
     (let (n, w1) = comfortNoiseSample w;
          (out, w2) = softSilenceLoop scale rest w1
      in ((s + n * scale) # out, w2))"

definition applySoftSilence :: "real list \<Rightarrow> 'd RNNoiseWrapper \<Rightarrow> real list \<times> 'd RNNoiseWrapper" where
  "applySoftSilence frame w =
     (if \<not> comfortNoiseEnabled w then (frame, w)
      else if smoothGain w \<ge> kSoftSilenceGateThresh then (frame, w)
      else (let scale = (kSoftSilenceGateThresh - smoothGain w) / kSoftSilenceGateThresh
            in softSilenceLoop scale frame w))"

subsection \<open>The frame pipeline\<close>

text \<open>Step 5 of \<^verbatim>\<open>processFrame\<close>: each sample through the high-pass, then the low-pass.\<close>

fun filterFrame :: "BiquadState \<Rightarrow> BiquadState \<Rightarrow> real list \<Rightarrow> real list \<times> BiquadState \<times> BiquadState" where
  "filterFrame h l [] = ([], h, l)"
| "filterFrame h l (s # rest) =
     (let (y, h1) = process h s;
          (z, l1) = process l y;
          (out, h2, l2) = filterFrame h1 l1 rest
      in (z # out, h2, l2))"

text \<open>
  Step 9 of \<^verbatim>\<open>processFrame\<close> (the four lines of the asymmetric smoothing): the
  coefficient, the update of \<open>smoothGain\<close>, the clamp and the store to the metric.
\<close>

definition smoothGate :: "real \<Rightarrow> 'd RNNoiseWrapper \<Rightarrow> 'd RNNoiseWrapper" where
  "smoothGate targetGain w =
     (let coeff = (if targetGain < smoothGain w then kGateCloseCoeff else kGateOpenCoeff);
          w1 = w\<lparr>smoothGain := smoothGain w + coeff * (targetGain - smoothGain w)\<rparr>;
          w2 = w1\<lparr>smoothGain := std_clamp (smoothGain w1) kMinGateGain 1\<rparr>
      in w2\<lparr>metrics := (metrics w2)\<lparr>currentGain := smoothGain w2\<rparr>\<rparr>)"

text \<open>
  The fast path of \<^verbatim>\<open>processFrame\<close> (suppression fully off): only five metrics are
  stored; the frame is not written.
\<close>

definition bypassFrame :: "real list \<Rightarrow> 'd RNNoiseWrapper \<Rightarrow> real \<times> real list \<times> 'd RNNoiseWrapper" where
  "bypassFrame frame w =
     (let rms = computeRms frame kRNNoiseFrameSize;
          m1 = (metrics w)\<lparr>inputRms := rms\<rparr>;
          m2 = m1\<lparr>outputRms := rms\<rparr>;
          m3 = m2\<lparr>vadProbability := 0\<rparr>;
          m4 = m3\<lparr>currentGain := 1\<rparr>;
          m5 = m4\<lparr>framesProcessed := framesProcessed m4 + 1\<rparr>
      in (0, frame, w\<lparr>metrics := m5\<rparr>))"

text \<open>
  Steps 1 to 13 of \<^verbatim>\<open>processFrame\<close>, with both denoiser states \<open>d1\<close> and \<open>d2\<close>
  at hand and \<open>level\<close> the snapshot of the suppression level. The denoiser is a
  black box: \<open>rnnoise_process_frame d frame\<close> gives the VAD probability, the
  denoiser's next state and the frame it wrote.
\<close>

definition suppressFrame ::
  "('d \<Rightarrow> real list \<Rightarrow> real \<times> 'd \<times> real list) \<Rightarrow> 'd \<Rightarrow> 'd \<Rightarrow> real \<Rightarrow> real list \<Rightarrow>
   'd RNNoiseWrapper \<Rightarrow> real \<times> real list \<times> 'd RNNoiseWrapper" where
  "suppressFrame rnnoise_process_frame d1 d2 level frame w =
     (let inRms = computeRms frame kRNNoiseFrameSize;
          w1 = w\<lparr>metrics := (metrics w)\<lparr>inputRms := inRms\<rparr>\<rparr>;
          original = frame;
          f1 = map (\<lambda>s. s * 32767) frame;
          (vad1, d1', f2) = rnnoise_process_frame d1 f1;
          (vad2, d2', f3) = rnnoise_process_frame d2 f2;
          w2 = w1\<lparr>state := Some d1', state2 := Some d2'\<rparr>;
          vad = std_max vad1 vad2;
          w3 = w2\<lparr>metrics := (metrics w2)\<lparr>vadProbability := vad\<rparr>\<rparr>;
          kInvScale = 1 / 32767;
          f4 = map (\<lambda>s. s * kInvScale) f3;
          f5 = (if level < 1
                then (let dry = 1 - level in map2 (\<lambda>s orig. s * level + orig * dry) f4 original)
                else f4);
          (f6, h, l) = filterFrame (hpf w3) (lpf w3) f5;
          w4 = w3\<lparr>hpf := h, lpf := l\<rparr>;
          postRms = computeRms f6 kRNNoiseFrameSize;
          w5 = updateNoiseFloor postRms vad w4;
          (targetGain, w6) = computeGateTarget vad postRms w5;
          w7 = smoothGate targetGain w6;
          f7 = map (\<lambda>s. s * smoothGain w7) f6;
          f8 = spectralClamp f7 vad w7;
          (f9, w8) = applySoftSilence f8 w7;
          outRms = computeRms f9 kRNNoiseFrameSize;
          m1 = (metrics w8)\<lparr>outputRms := outRms\<rparr>;
          m2 = m1\<lparr>framesProcessed := framesProcessed m1 + 1\<rparr>
      in (vad, f9, w8\<lparr>metrics := m2\<rparr>))"

text \<open>
  \<^verbatim>\<open>processFrame\<close>: the returned value, the frame buffer after the call and the
  object. The first line of the source returns 0 when either handle is null, before
  anything is read or stored.
\<close>

definition processFrame ::
  "('d \<Rightarrow> real list \<Rightarrow> real \<times> 'd \<times> real list) \<Rightarrow> real list \<Rightarrow> 'd RNNoiseWrapper \<Rightarrow>
   real \<times> real list \<times> 'd RNNoiseWrapper" where
  "processFrame rnnoise_process_frame frame w =
     (case state w of
        None \<Rightarrow> (0, frame, w)
      | Some d1 \<Rightarrow>
          (case state2 w of
             None \<Rightarrow> (0, frame, w)
           | Some d2 \<Rightarrow>
               (let level = suppressionLevel w
                in if level \<le> 0 then bypassFrame frame w
                   else suppressFrame rnnoise_process_frame d1 d2 level frame w)))"

section \<open>The audio engine\<close>

text \<open>
  The embedding of \<^verbatim>\<open>audio.h\<close> and \<^verbatim>\<open>audio.cpp\<close>. The engine is modelled from the control thread's and the callbacks' point of view,
  one call at a time. What the PortAudio and RNNoise libraries answer during a call is
  a parameter of the call (a record of outcomes); the engine's own fields and the
  library's initialisation count are the state. \<^verbatim>\<open>statusCallback_\<close> and the
  restart routine are left out: no property below reads them. Device indices are
  taken to name existing devices (the source dereferences \<^verbatim>\<open>Pa_GetDeviceInfo\<close>
  unchecked).
\<close>

subsection \<open>PortAudio's constants\<close>

definition paNoError :: int where "paNoError = 0"
definition paNoDevice :: int where "paNoDevice = - 1"
definition kRingCapacity :: nat where "kRingCapacity = 4096"

subsection \<open>Ring buffer\<close>

text \<open>
  Modelled from the spec: \<^verbatim>\<open>ringbuffer.h\<close> is not among the sources. The ring is
  modelled by its contract (section 4.1 of the specification): a capacity that is
  rounded up to a power of two at construction, and the readable samples, oldest first;
  \<open>write\<close> copies up to \<open>min n writable\<close> samples and returns the count, \<open>read\<close>
  copies up to \<open>min n readable\<close> samples and returns the count.
\<close>

record RingBuffer =
  capacity :: nat
  readable :: "real list"

function roundUpPow2 :: "nat \<Rightarrow> nat \<Rightarrow> nat" where
  "roundUpPow2 p n = (if 0 < p \<and> p < n then roundUpPow2 (2 * p) n else p)"
  by pat_completeness auto
termination
  by (relation "measure (\<lambda>(p, n). n - p)") auto

definition RingBuffer_new :: "nat \<Rightarrow> RingBuffer" where
  "RingBuffer_new n = \<lparr>capacity = roundUpPow2 1 n, readable = []\<rparr>"

definition available_read :: "RingBuffer \<Rightarrow> nat" where
  "available_read r = length (readable r)"

definition available_write :: "RingBuffer \<Rightarrow> nat" where
  "available_write r = capacity r - length (readable r)"

definition RingBuffer_write :: "real list \<Rightarrow> nat \<Rightarrow> RingBuffer \<Rightarrow> nat \<times> RingBuffer" where
  "RingBuffer_write src n r =
     (let k = min n (available_write r)
      in (k, r\<lparr>readable := readable r @ take k src\<rparr>))"

definition RingBuffer_read :: "nat \<Rightarrow> RingBuffer \<Rightarrow> nat \<times> real list \<times> RingBuffer" where
  "RingBuffer_read n r =
     (let k = min n (available_read r)
      in (k, take k (readable r), r\<lparr>readable := drop k (readable r)\<rparr>))"

subsection \<open>Engine state\<close>

record AudioConfig =
  inputDeviceIndex :: int
  outputDeviceIndex :: int
  sampleRate :: real
  framesPerBuffer :: nat
  tryExclusiveMode :: bool

definition AudioConfig_default :: AudioConfig where
  "AudioConfig_default =
     \<lparr>inputDeviceIndex = - 1, outputDeviceIndex = - 1, sampleRate = 48000,
      framesPerBuffer = 480, tryExclusiveMode = True\<rparr>"

text \<open>An open stream: the device it was opened on and whether it has been started.\<close>

record PaStream =
  streamDevice :: int
  streamActive :: bool

text \<open>
  \<open>processingThread\<close> is whether the thread object is joinable; \<open>paInitCount\<close> is
  the library's count of \<^verbatim>\<open>Pa_Initialize\<close> calls not yet matched by
  \<^verbatim>\<open>Pa_Terminate\<close>.
\<close>

record 'd AudioEngine =
  running :: bool
  shouldRestart :: bool
  config :: AudioConfig
  captureStream :: "PaStream option"
  outputStream :: "PaStream option"
  captureRing :: "RingBuffer option"
  outputRing :: "RingBuffer option"
  rnnoise :: "'d RNNoiseWrapper"
  processingThread :: bool
  paInitCount :: nat

definition AudioEngine_default :: "'d AudioEngine" where
  "AudioEngine_default =
     \<lparr>running = False, shouldRestart = False, config = AudioConfig_default,
      captureStream = None, outputStream = None, captureRing = None, outputRing = None,
      rnnoise = RNNoiseWrapper_default, processingThread = False, paInitCount = 0\<rparr>"

text \<open>
  What the libraries answer during one \<^verbatim>\<open>start\<close>: the error code of each call
  (\<open>paNoError\<close> on success), the two denoiser handles, the default devices, the text
  of an error code, and whether the build is the Windows one (the retry in shared mode
  is compiled under \<^verbatim>\<open>_WIN32\<close> only).
\<close>

record 'd Backend =
  pa_Initialize :: int
  rnnoise_create1 :: "'d option"
  rnnoise_create2 :: "'d option"
  pa_GetDefaultInputDevice :: int
  pa_GetDefaultOutputDevice :: int
  pa_OpenCapture :: int
  pa_OpenCaptureShared :: int
  pa_OpenOutput :: int
  pa_OpenOutputShared :: int
  pa_StartCapture :: int
  pa_StartOutput :: int
  pa_GetErrorText :: "int \<Rightarrow> string"
  win32 :: bool

subsection \<open>Streams\<close>

definition Pa_Terminate :: "'d AudioEngine \<Rightarrow> 'd AudioEngine" where
  "Pa_Terminate e = e\<lparr>paInitCount := paInitCount e - 1\<rparr>"

definition stopStream :: "PaStream option \<Rightarrow> PaStream option" where
  "stopStream s = (case s of None \<Rightarrow> None | Some st \<Rightarrow> Some (st\<lparr>streamActive := False\<rparr>))"

definition closeStreams :: "'d AudioEngine \<Rightarrow> 'd AudioEngine" where
  "closeStreams e =
     (let e1 = (if captureStream e \<noteq> None then e\<lparr>captureStream := None\<rparr> else e)
      in if outputStream e1 \<noteq> None then e1\<lparr>outputStream := None\<rparr> else e1)"

text \<open>
  \<^verbatim>\<open>openStreams\<close>: the returned string (empty on success) and the engine. A failed
  \<^verbatim>\<open>Pa_OpenStream\<close> is taken to leave the stream pointer as it was.
\<close>

definition openStreams :: "'d Backend \<Rightarrow> 'd AudioEngine \<Rightarrow> string \<times> 'd AudioEngine" where
  "openStreams be e =
     (let inputIdx0 = inputDeviceIndex (config e);
          outputIdx0 = outputDeviceIndex (config e);
          inputIdx = (if inputIdx0 < 0 then pa_GetDefaultInputDevice be else inputIdx0);
          outputIdx = (if outputIdx0 < 0 then pa_GetDefaultOutputDevice be else outputIdx0)
      in if inputIdx = paNoDevice then (''No input device available'', e)
         else if outputIdx = paNoDevice then (''No output device available'', e)
         else
           (let inStream = \<lparr>streamDevice = inputIdx, streamActive = False\<rparr>;
                outStream = \<lparr>streamDevice = outputIdx, streamActive = False\<rparr>;
                err1 = pa_OpenCapture be;
                err2 = (if err1 \<noteq> paNoError \<and> win32 be \<and> tryExclusiveMode (config e)
                        then pa_OpenCaptureShared be else err1);
                e1 = (if err2 = paNoError then e\<lparr>captureStream := Some inStream\<rparr> else e)
            in if err2 \<noteq> paNoError
               then (''Failed to open capture stream: '' @ pa_GetErrorText be err2, e1)
               else
                 (let err3 = pa_OpenOutput be;
                      err4 = (if err3 \<noteq> paNoError \<and> win32 be \<and> tryExclusiveMode (config e)
                              then pa_OpenOutputShared be else err3);
                      e2 = (if err4 = paNoError then e1\<lparr>outputStream := Some outStream\<rparr> else e1)
                  in if err4 \<noteq> paNoError
                     then (''Failed to open output stream: '' @ pa_GetErrorText be err4,
                           e2\<lparr>captureStream := None\<rparr>)
                     else ([], e2))))"

subsection \<open>Start and stop\<close>

text \<open>\<^verbatim>\<open>AudioEngine::start\<close>: the returned string (empty on success) and the engine.\<close>

definition start :: "'d Backend \<Rightarrow> AudioConfig \<Rightarrow> 'd AudioEngine \<Rightarrow> string \<times> 'd AudioEngine" where
  "start be cfg e =
     (if running e then (''Engine already running'', e)
      else
        (let e1 = e\<lparr>config := cfg\<rparr>;
             err = pa_Initialize be
         in if err \<noteq> paNoError
            then (''Pa_Initialize failed: '' @ pa_GetErrorText be err, e1)
            else
              (let e2 = e1\<lparr>paInitCount := paInitCount e1 + 1\<rparr>;
                   e3 = e2\<lparr>captureRing := Some (RingBuffer_new kRingCapacity)\<rparr>;
                   e4 = e3\<lparr>outputRing := Some (RingBuffer_new kRingCapacity)\<rparr>;
                   (ok, w) = init (rnnoise_create1 be) (rnnoise_create2 be) (rnnoise e4);
                   e5 = e4\<lparr>rnnoise := w\<rparr>
               in if \<not> ok then (''RNNoise initialization failed'', Pa_Terminate e5)
                  else
                    (let (openErr, e6) = openStreams be e5
                     in if openErr \<noteq> []
                        then (openErr, Pa_Terminate (e6\<lparr>rnnoise := destroy (rnnoise e6)\<rparr>))
                        else
                          (let err1 = pa_StartCapture be
                           in if err1 \<noteq> paNoError
                              then (let e7 = closeStreams e6;
                                        e8 = e7\<lparr>rnnoise := destroy (rnnoise e7)\<rparr>
                                    in (''Failed to start capture stream: '' @ pa_GetErrorText be err1,
                                        Pa_Terminate e8))
                              else
                                (let e7 = e6\<lparr>captureStream :=
                                             map_option (\<lambda>s. s\<lparr>streamActive := True\<rparr>) (captureStream e6)\<rparr>;
                                     err2 = pa_StartOutput be
                                 in if err2 \<noteq> paNoError
                                    then (let e8 = e7\<lparr>captureStream := stopStream (captureStream e7)\<rparr>;
                                              e9 = closeStreams e8;
                                              e10 = e9\<lparr>rnnoise := destroy (rnnoise e9)\<rparr>
                                          in (''Failed to start output stream: '' @ pa_GetErrorText be err2,
                                              Pa_Terminate e10))
                                    else
                                      (let e8 = e7\<lparr>outputStream :=
                                                   map_option (\<lambda>s. s\<lparr>streamActive := True\<rparr>) (outputStream e7)\<rparr>;
                                           e9 = e8\<lparr>running := True\<rparr>;
                                           e10 = e9\<lparr>processingThread := True\<rparr>
                                       in ([], e10))))))))"

text \<open>
  \<^verbatim>\<open>AudioEngine::stop\<close>, as the calling thread sees it: the join returns once the
  worker has left its loop.
\<close>

definition stop :: "'d AudioEngine \<Rightarrow> 'd AudioEngine" where
  "stop e =
     (if \<not> running e then e
      else
        (let e1 = e\<lparr>running := False\<rparr>;
             e2 = (if processingThread e1 then e1\<lparr>processingThread := False\<rparr> else e1);
             e3 = (if captureStream e2 \<noteq> None
                   then e2\<lparr>captureStream := stopStream (captureStream e2)\<rparr> else e2);
             e4 = (if outputStream e3 \<noteq> None
                   then e3\<lparr>outputStream := stopStream (outputStream e3)\<rparr> else e3);
             e5 = closeStreams e4;
             e6 = e5\<lparr>rnnoise := destroy (rnnoise e5)\<rparr>;
             e7 = e6\<lparr>captureRing := None\<rparr>;
             e8 = e7\<lparr>outputRing := None\<rparr>
         in Pa_Terminate e8))"

subsection \<open>Level control\<close>

definition AudioEngine_setSuppressionLevel :: "real \<Rightarrow> 'd AudioEngine \<Rightarrow> 'd AudioEngine" where
  "AudioEngine_setSuppressionLevel level e = e\<lparr>rnnoise := setSuppressionLevel level (rnnoise e)\<rparr>"

subsection \<open>Callbacks and the processing loop\<close>

text \<open>
  \<^verbatim>\<open>captureCallback\<close> with a non-null input buffer. A null ring while running is a
  null dereference in the source: the result \<open>None\<close>.
\<close>

definition captureCallback :: "real list \<Rightarrow> nat \<Rightarrow> 64 word \<Rightarrow> 'd AudioEngine \<Rightarrow> 'd AudioEngine option" where
  "captureCallback samples frameCount statusFlags e =
     (if \<not> running e then Some e
      else
        (case captureRing e of
           None \<Rightarrow> None
         | Some r \<Rightarrow>
             (let (n, r1) = RingBuffer_write samples frameCount r;
                  e1 = e\<lparr>captureRing := Some r1\<rparr>
              in if statusFlags AND 0x00000001 \<noteq> 0 \<or> statusFlags AND 0x00000002 \<noteq> 0
                 then Some (e1\<lparr>shouldRestart := True\<rparr>)
                 else Some e1)))"

text \<open>
  \<^verbatim>\<open>outputCallback\<close>: the \<open>frameCount\<close> samples it leaves in the output buffer,
  and the engine.
\<close>

definition outputCallback :: "nat \<Rightarrow> 64 word \<Rightarrow> 'd AudioEngine \<Rightarrow> (real list \<times> 'd AudioEngine) option" where
  "outputCallback frameCount statusFlags e =
     (if \<not> running e then Some (replicate frameCount 0, e)
      else
        (case outputRing e of
           None \<Rightarrow> None
         | Some r \<Rightarrow>
             (let (n, got, r1) = RingBuffer_read frameCount r;
                  out = (if n < frameCount then got @ replicate (frameCount - n) 0 else got);
                  e1 = e\<lparr>outputRing := Some r1\<rparr>
              in if statusFlags AND 0x00000004 \<noteq> 0 \<or> statusFlags AND 0x00000008 \<noteq> 0
                 then Some (out, e1\<lparr>shouldRestart := True\<rparr>)
                 else Some (out, e1))))"

text \<open>
  One iteration of \<^verbatim>\<open>processingLoop\<close> with a full frame available (the branch that
  reads a frame, runs the wrapper and writes the result); in the other branch the
  thread only sleeps. The restart check at the end of the iteration is left out, as the
  restart routine is.
\<close>

definition processingStep ::
  "('d \<Rightarrow> real list \<Rightarrow> real \<times> 'd \<times> real list) \<Rightarrow> 'd AudioEngine \<Rightarrow> 'd AudioEngine option" where
  "processingStep rnnoise_process_frame e =
     (case captureRing e of
        None \<Rightarrow> None
      | Some cr \<Rightarrow>
          (if available_read cr \<ge> kRNNoiseFrameSize
           then
             (let (n, frame, cr1) = RingBuffer_read kRNNoiseFrameSize cr;
                  e1 = e\<lparr>captureRing := Some cr1\<rparr>;
                  (vad, frame1, w) = processFrame rnnoise_process_frame frame (rnnoise e1);
                  e2 = e1\<lparr>rnnoise := w\<rparr>
              in (case outputRing e2 of
                    None \<Rightarrow> None
                  | Some r \<Rightarrow>
                      (let (k, r1) = RingBuffer_write frame1 kRNNoiseFrameSize r
                       in Some (e2\<lparr>outputRing := Some r1\<rparr>))))
           else Some e))"

section \<open>The frame processor with binary32 values\<close>

text \<open>
  The embedding above takes a \<^verbatim>\<open>float\<close> for a real number. This section repeats
  the wrapper with the values a binary32 variable can hold: a finite number, either
  infinity, or NaN. An arithmetic result whose magnitude reaches the overflow threshold
  of round-to-nearest, \<open>2^128 - 2^103\<close>, is an infinity; a finite result below the
  threshold is kept as it is (round-off, subnormal numbers and the sign of zero are not
  modelled). Infinities and NaN propagate as IEEE 754 prescribes, and every comparison
  with NaN is false. The definitions follow the same source lines as their
  counterparts above and carry the suffix \<open>32\<close>.
\<close>

subsection \<open>Binary32 values and operations\<close>

datatype f32 = Num real | PosInf | NegInf | NaN

definition f32_overflow :: real where
  "f32_overflow = 2 ^ 128 - 2 ^ 103"

definition f32_of_real :: "real \<Rightarrow> f32" where
  "f32_of_real r =
     (if f32_overflow \<le> r then PosInf else if r \<le> - f32_overflow then NegInf else Num r)"

fun fneg :: "f32 \<Rightarrow> f32" where
  "fneg (Num a) = Num (- a)"
| "fneg PosInf = NegInf"
| "fneg NegInf = PosInf"
| "fneg NaN = NaN"

fun fabs :: "f32 \<Rightarrow> f32" where
  "fabs (Num a) = Num \<bar>a\<bar>"
| "fabs PosInf = PosInf"
| "fabs NegInf = PosInf"
| "fabs NaN = NaN"

fun fadd :: "f32 \<Rightarrow> f32 \<Rightarrow> f32" where
  "fadd (Num a) (Num b) = f32_of_real (a + b)"
| "fadd NaN _ = NaN"
| "fadd _ NaN = NaN"
| "fadd PosInf NegInf = NaN"
| "fadd NegInf PosInf = NaN"
| "fadd PosInf _ = PosInf"
| "fadd _ PosInf = PosInf"
| "fadd NegInf _ = NegInf"
| "fadd _ NegInf = NegInf"

definition fsub :: "f32 \<Rightarrow> f32 \<Rightarrow> f32" where
  "fsub a b = fadd a (fneg b)"

fun fmul :: "f32 \<Rightarrow> f32 \<Rightarrow> f32" where
  "fmul (Num a) (Num b) = f32_of_real (a * b)"
| "fmul NaN _ = NaN"
| "fmul _ NaN = NaN"
| "fmul PosInf (Num b) = (if b = 0 then NaN else if 0 < b then PosInf else NegInf)"
| "fmul NegInf (Num b) = (if b = 0 then NaN else if 0 < b then NegInf else PosInf)"
| "fmul (Num a) PosInf = (if a = 0 then NaN else if 0 < a then PosInf else NegInf)"
| "fmul (Num a) NegInf = (if a = 0 then NaN else if 0 < a then NegInf else PosInf)"
| "fmul PosInf PosInf = PosInf"
| "fmul NegInf NegInf = PosInf"
| "fmul PosInf NegInf = NegInf"
| "fmul NegInf PosInf = NegInf"

text \<open>A zero divisor is taken as positive zero.\<close>

fun fdiv :: "f32 \<Rightarrow> f32 \<Rightarrow> f32" where
  "fdiv (Num a) (Num b) =
     (if b = 0 then (if a = 0 then NaN else if 0 < a then PosInf else NegInf)
      else f32_of_real (a / b))"
| "fdiv NaN _ = NaN"
| "fdiv _ NaN = NaN"
| "fdiv (Num a) PosInf = Num 0"
| "fdiv (Num a) NegInf = Num 0"
| "fdiv PosInf (Num b) = (if 0 \<le> b then PosInf else NegInf)"
| "fdiv NegInf (Num b) = (if 0 \<le> b then NegInf else PosInf)"
| "fdiv PosInf PosInf = NaN"
| "fdiv PosInf NegInf = NaN"
| "fdiv NegInf PosInf = NaN"
| "fdiv NegInf NegInf = NaN"

fun fsqrt :: "f32 \<Rightarrow> f32" where
  "fsqrt (Num a) = (if a < 0 then NaN else Num (sqrt a))"
| "fsqrt PosInf = PosInf"
| "fsqrt NegInf = NaN"
| "fsqrt NaN = NaN"

text \<open>\<open>flt a b\<close> is the comparison \<^verbatim>\<open>a < b\<close>, \<open>fle a b\<close> is \<^verbatim>\<open>a <= b\<close>.\<close>

fun flt :: "f32 \<Rightarrow> f32 \<Rightarrow> bool" where
  "flt (Num a) (Num b) = (a < b)"
| "flt NaN _ = False"
| "flt _ NaN = False"
| "flt PosInf _ = False"
| "flt _ NegInf = False"
| "flt _ PosInf = True"
| "flt NegInf _ = True"

fun fle :: "f32 \<Rightarrow> f32 \<Rightarrow> bool" where
  "fle (Num a) (Num b) = (a \<le> b)"
| "fle NaN _ = False"
| "fle _ NaN = False"
| "fle NegInf _ = True"
| "fle _ PosInf = True"
| "fle PosInf _ = False"
| "fle _ NegInf = False"

definition std_max32 :: "f32 \<Rightarrow> f32 \<Rightarrow> f32" where
  "std_max32 a b = (if flt a b then b else a)"

definition std_clamp32 :: "f32 \<Rightarrow> f32 \<Rightarrow> f32 \<Rightarrow> f32" where
  "std_clamp32 v lo hi = (if flt v lo then lo else if flt hi v then hi else v)"

subsection \<open>Data\<close>

record AudioMetrics32 =
  inputRms_32 :: f32
  outputRms_32 :: f32
  vadProbability_32 :: f32
  currentGain_32 :: f32
  noiseFloor_32 :: f32
  framesProcessed_32 :: "64 word"

record BiquadState32 =
  b0_32 :: f32
  b1_32 :: f32
  b2_32 :: f32
  a1_32 :: f32
  a2_32 :: f32
  x1_32 :: f32
  x2_32 :: f32
  y1_32 :: f32
  y2_32 :: f32

record 'd RNNoiseWrapper32 =
  state_32 :: "'d option"
  state2_32 :: "'d option"
  suppressionLevel_32 :: f32
  vadThreshold_32 :: f32
  comfortNoiseEnabled_32 :: bool
  smoothGain_32 :: f32
  holdCounter_32 :: int
  noiseFloorEstimate_32 :: f32
  calibrationFrames_32 :: "64 word"
  hpf_32 :: BiquadState32
  lpf_32 :: BiquadState32
  noiseState_32 :: "32 word"
  prevNoise_32 :: f32
  metrics_32 :: AudioMetrics32

definition AudioMetrics32_default :: AudioMetrics32 where
  "AudioMetrics32_default =
     \<lparr>inputRms_32 = Num 0, outputRms_32 = Num 0, vadProbability_32 = Num 0,
      currentGain_32 = Num 1, noiseFloor_32 = Num 0, framesProcessed_32 = 0\<rparr>"

definition BiquadState32_default :: BiquadState32 where
  "BiquadState32_default =
     \<lparr>b0_32 = Num 1, b1_32 = Num 0, b2_32 = Num 0, a1_32 = Num 0, a2_32 = Num 0,
      x1_32 = Num 0, x2_32 = Num 0, y1_32 = Num 0, y2_32 = Num 0\<rparr>"

definition RNNoiseWrapper32_default :: "'d RNNoiseWrapper32" where
  "RNNoiseWrapper32_default =
     \<lparr>state_32 = None, state2_32 = None, suppressionLevel_32 = Num 1,
      vadThreshold_32 = Num 0.65, comfortNoiseEnabled_32 = True, smoothGain_32 = Num 1,
      holdCounter_32 = 0, noiseFloorEstimate_32 = Num 0, calibrationFrames_32 = 0,
      hpf_32 = BiquadState32_default, lpf_32 = BiquadState32_default,
      noiseState_32 = 0x12345678, prevNoise_32 = Num 0, metrics_32 = AudioMetrics32_default\<rparr>"

subsection \<open>Biquad filter and lifecycle\<close>

definition reset32 :: "BiquadState32 \<Rightarrow> BiquadState32" where
  "reset32 f = f\<lparr>x1_32 := Num 0, x2_32 := Num 0, y1_32 := Num 0, y2_32 := Num 0\<rparr>"

text \<open>The sum is evaluated left to right, as the C++ expression is.\<close>

definition process32 :: "BiquadState32 \<Rightarrow> f32 \<Rightarrow> f32 \<times> BiquadState32" where
  "process32 f x =
     (let y = fsub (fsub (fadd (fadd (fmul (b0_32 f) x) (fmul (b1_32 f) (x1_32 f)))
                               (fmul (b2_32 f) (x2_32 f)))
                         (fmul (a1_32 f) (y1_32 f)))
                   (fmul (a2_32 f) (y2_32 f))
      in (y, f\<lparr>x2_32 := x1_32 f, x1_32 := x, y2_32 := y1_32 f, y1_32 := y\<rparr>))"

definition initFilters32 :: "'d RNNoiseWrapper32 \<Rightarrow> 'd RNNoiseWrapper32" where
  "initFilters32 w =
     (let w1 = w\<lparr>hpf_32 := reset32 ((hpf_32 w)\<lparr>b0_32 := Num 0.992631, b1_32 := Num (- 1.985261),
                    b2_32 := Num 0.992631, a1_32 := Num (- 1.985199), a2_32 := Num 0.985323\<rparr>)\<rparr>
      in w1\<lparr>lpf_32 := reset32 ((lpf_32 w1)\<lparr>b0_32 := Num 0.155029, b1_32 := Num 0.310059,
                    b2_32 := Num 0.155029, a1_32 := Num (- 0.620209), a2_32 := Num 0.240326\<rparr>)\<rparr>)"

definition destroy32 :: "'d RNNoiseWrapper32 \<Rightarrow> 'd RNNoiseWrapper32" where
  "destroy32 w =
     (let w1 = (if state_32 w \<noteq> None then w\<lparr>state_32 := None\<rparr> else w)
      in if state2_32 w1 \<noteq> None then w1\<lparr>state2_32 := None\<rparr> else w1)"

definition init32 ::
  "'d option \<Rightarrow> 'd option \<Rightarrow> 'd RNNoiseWrapper32 \<Rightarrow> bool \<times> 'd RNNoiseWrapper32" where
  "init32 c1 c2 w =
     (let w0 = (if state_32 w \<noteq> None then destroy32 w else w);
          w1 = w0\<lparr>state_32 := c1, state2_32 := c2\<rparr>;
          w2 = w1\<lparr>smoothGain_32 := Num 1, holdCounter_32 := 0, noiseFloorEstimate_32 := Num 0,
                  calibrationFrames_32 := 0, noiseState_32 := 0x12345678, prevNoise_32 := Num 0\<rparr>;
          w3 = initFilters32 w2;
          w4 = w3\<lparr>metrics_32 := (metrics_32 w3)\<lparr>framesProcessed_32 := 0, inputRms_32 := Num 0,
                  outputRms_32 := Num 0, vadProbability_32 := Num 0, currentGain_32 := Num 1,
                  noiseFloor_32 := Num 0\<rparr>\<rparr>
      in (state_32 w4 \<noteq> None \<and> state2_32 w4 \<noteq> None, w4))"

subsection \<open>Helpers\<close>

definition computeRms32 :: "f32 list \<Rightarrow> nat \<Rightarrow> f32" where
  "computeRms32 buf len =
     fsqrt (fdiv (foldl (\<lambda>sum x. fadd sum (fmul x x)) (Num 0) (take len buf)) (Num (real len)))"

text \<open>The conversion of the 32-bit integer to \<^verbatim>\<open>float\<close> is taken as exact.\<close>

definition comfortNoiseSample32 :: "'d RNNoiseWrapper32 \<Rightarrow> f32 \<times> 'd RNNoiseWrapper32" where
  "comfortNoiseSample32 w =
     (let n1 = noiseState_32 w XOR push_bit 13 (noiseState_32 w);
          n2 = n1 XOR drop_bit 17 n1;
          n3 = n2 XOR push_bit 5 n2;
          white = fdiv (Num (real_of_int (sint n3))) (Num 2147483648);
          shaped = fadd (fmul (Num kNoiseShapeCoeff) (prevNoise_32 w))
                        (fmul (fsub (Num 1) (Num kNoiseShapeCoeff)) white)
      in (fmul shaped (Num kSoftSilenceLevel), w\<lparr>noiseState_32 := n3, prevNoise_32 := shaped\<rparr>))"

subsection \<open>Noise floor and gate\<close>

definition updateNoiseFloor32 :: "f32 \<Rightarrow> f32 \<Rightarrow> 'd RNNoiseWrapper32 \<Rightarrow> 'd RNNoiseWrapper32" where
  "updateNoiseFloor32 postRms vad w =
     (let vadThresh = vadThreshold_32 w;
          isNoise = flt vad (fmul vadThresh (Num 0.5))
      in if \<not> isNoise
         then w\<lparr>metrics_32 := (metrics_32 w)\<lparr>noiseFloor_32 := noiseFloorEstimate_32 w\<rparr>\<rparr>
         else
           (let (alpha, w1) =
                  (if calibrationFrames_32 w < kCalibrationPeriod
                   then (Num kCalibrationAlpha, w\<lparr>calibrationFrames_32 := calibrationFrames_32 w + 1\<rparr>)
                   else (Num kTrackingAlpha, w));
                w2 = (if fle (noiseFloorEstimate_32 w1) (Num 0)
                      then w1\<lparr>noiseFloorEstimate_32 := postRms\<rparr>
                      else w1\<lparr>noiseFloorEstimate_32 :=
                                fadd (noiseFloorEstimate_32 w1)
                                     (fmul alpha (fsub postRms (noiseFloorEstimate_32 w1)))\<rparr>);
                w3 = w2\<lparr>noiseFloorEstimate_32 :=
                          std_max32 (noiseFloorEstimate_32 w2) (Num kAbsoluteMinFloor)\<rparr>
            in w3\<lparr>metrics_32 := (metrics_32 w3)\<lparr>noiseFloor_32 := noiseFloorEstimate_32 w3\<rparr>\<rparr>))"

definition computeGateTarget32 :: "f32 \<Rightarrow> f32 \<Rightarrow> 'd RNNoiseWrapper32 \<Rightarrow> f32 \<times> 'd RNNoiseWrapper32" where
  "computeGateTarget32 vad postRms w =
     (let vadThresh = vadThreshold_32 w;
          gateThresh = (if flt (Num kAbsoluteMinFloor) (noiseFloorEstimate_32 w)
                        then fmul (noiseFloorEstimate_32 w) (Num kFloorMultiplier)
                        else Num kFallbackThreshold);
          speechByVad = fle vadThresh vad;
          speechByEnergy = (fle (fsub vadThresh (Num kVadHysteresis)) vad
                            \<and> flt (fmul gateThresh (Num 2.0)) postRms)
      in if speechByVad \<or> speechByEnergy then (Num 1, w\<lparr>holdCounter_32 := kHoldFrames\<rparr>)
         else if holdCounter_32 w > 0 then (Num 1, w\<lparr>holdCounter_32 := holdCounter_32 w - 1\<rparr>)
         else if flt postRms gateThresh then (Num kMinGateGain, w)
         else (let ratio = fdiv (fsub postRms gateThresh) (std_max32 gateThresh (Num 0.0001))
               in (std_clamp32 ratio (Num kMinGateGain) (Num 0.5), w)))"

definition smoothGate32 :: "f32 \<Rightarrow> 'd RNNoiseWrapper32 \<Rightarrow> 'd RNNoiseWrapper32" where
  "smoothGate32 targetGain w =
     (let coeff = (if flt targetGain (smoothGain_32 w) then Num kGateCloseCoeff
                   else Num kGateOpenCoeff);
          w1 = w\<lparr>smoothGain_32 :=
                   fadd (smoothGain_32 w) (fmul coeff (fsub targetGain (smoothGain_32 w)))\<rparr>;
          w2 = w1\<lparr>smoothGain_32 := std_clamp32 (smoothGain_32 w1) (Num kMinGateGain) (Num 1)\<rparr>
      in w2\<lparr>metrics_32 := (metrics_32 w2)\<lparr>currentGain_32 := smoothGain_32 w2\<rparr>\<rparr>)"

subsection \<open>Spectral floor clamp and soft silence\<close>

definition spectralClamp32 :: "f32 list \<Rightarrow> f32 \<Rightarrow> 'd RNNoiseWrapper32 \<Rightarrow> f32 list" where
  "spectralClamp32 frame vad w =
     (let vadThresh = vadThreshold_32 w
      in if fle vadThresh vad \<or> flt (Num kClampGateThreshold) (smoothGain_32 w) then frame
         else (let clampThresh =
                     std_max32 (fmul (noiseFloorEstimate_32 w) (Num kSpectralClampMult))
                               (fmul (Num kAbsoluteMinFloor) (Num 3.0))
               in map (\<lambda>s. if flt (fabs s) clampThresh then Num 0 else s) frame))"

fun softSilenceLoop32 ::
  "f32 \<Rightarrow> f32 list \<Rightarrow> 'd RNNoiseWrapper32 \<Rightarrow> f32 list \<times> 'd RNNoiseWrapper32" where
  "softSilenceLoop32 scale [] w = ([], w)"
| "softSilenceLoop32 scale (s # rest) w =
     (let (n, w1) = comfortNoiseSample32 w;
          (out, w2) = softSilenceLoop32 scale rest w1
      in (fadd s (fmul n scale) # out, w2))"

definition applySoftSilence32 ::
  "f32 list \<Rightarrow> 'd RNNoiseWrapper32 \<Rightarrow> f32 list \<times> 'd RNNoiseWrapper32" where
  "applySoftSilence32 frame w =
     (if \<not> comfortNoiseEnabled_32 w then (frame, w)
      else if fle (Num kSoftSilenceGateThresh) (smoothGain_32 w) then (frame, w)
      else (let scale = fdiv (fsub (Num kSoftSilenceGateThresh) (smoothGain_32 w))
                             (Num kSoftSilenceGateThresh)
            in softSilenceLoop32 scale frame w))"

subsection \<open>The frame pipeline\<close>

fun filterFrame32 ::
  "BiquadState32 \<Rightarrow> BiquadState32 \<Rightarrow> f32 list \<Rightarrow> f32 list \<times> BiquadState32 \<times> BiquadState32" where
  "filterFrame32 h l [] = ([], h, l)"
| "filterFrame32 h l (s # rest) =
     (let (y, h1) = process32 h s;
          (z, l1) = process32 l y;
          (out, h2, l2) = filterFrame32 h1 l1 rest
      in (z # out, h2, l2))"

definition bypassFrame32 ::
  "f32 list \<Rightarrow> 'd RNNoiseWrapper32 \<Rightarrow> f32 \<times> f32 list \<times> 'd RNNoiseWrapper32" where
  "bypassFrame32 frame w =
     (let rms = computeRms32 frame kRNNoiseFrameSize;
          m1 = (metrics_32 w)\<lparr>inputRms_32 := rms\<rparr>;
          m2 = m1\<lparr>outputRms_32 := rms\<rparr>;
          m3 = m2\<lparr>vadProbability_32 := Num 0\<rparr>;
          m4 = m3\<lparr>currentGain_32 := Num 1\<rparr>;
          m5 = m4\<lparr>framesProcessed_32 := framesProcessed_32 m4 + 1\<rparr>
      in (Num 0, frame, w\<lparr>metrics_32 := m5\<rparr>))"

text \<open>
  Steps 1 to 5 of \<^verbatim>\<open>processFrame\<close>: input RMS, scaling, the two denoiser passes,
  rescaling, the blend and the two filters. The result is the VAD probability, the
  filtered frame and the object.
\<close>

definition denoiseAndFilter32 ::
  "('d \<Rightarrow> f32 list \<Rightarrow> f32 \<times> 'd \<times> f32 list) \<Rightarrow> 'd \<Rightarrow> 'd \<Rightarrow> f32 \<Rightarrow> f32 list \<Rightarrow>
   'd RNNoiseWrapper32 \<Rightarrow> f32 \<times> f32 list \<times> 'd RNNoiseWrapper32" where
  "denoiseAndFilter32 rnnoise_process_frame d1 d2 level frame w =
     (let inRms = computeRms32 frame kRNNoiseFrameSize;
          w1 = w\<lparr>metrics_32 := (metrics_32 w)\<lparr>inputRms_32 := inRms\<rparr>\<rparr>;
          original = frame;
          f1 = map (\<lambda>s. fmul s (Num 32767)) frame;
          (vad1, d1', f2) = rnnoise_process_frame d1 f1;
          (vad2, d2', f3) = rnnoise_process_frame d2 f2;
          w2 = w1\<lparr>state_32 := Some d1', state2_32 := Some d2'\<rparr>;
          vad = std_max32 vad1 vad2;
          w3 = w2\<lparr>metrics_32 := (metrics_32 w2)\<lparr>vadProbability_32 := vad\<rparr>\<rparr>;
          kInvScale = fdiv (Num 1) (Num 32767);
          f4 = map (\<lambda>s. fmul s kInvScale) f3;
          f5 = (if flt level (Num 1)
                then (let dry = fsub (Num 1) level
                      in map2 (\<lambda>s orig. fadd (fmul s level) (fmul orig dry)) f4 original)
                else f4);
          (f6, h, l) = filterFrame32 (hpf_32 w3) (lpf_32 w3) f5
      in (vad, f6, w3\<lparr>hpf_32 := h, lpf_32 := l\<rparr>))"

text \<open>
  Steps 6 to 9: post-filter RMS, noise-floor update, gate target, smoothing and the
  store of the gate gain.
\<close>

definition gateFrame32 :: "f32 \<Rightarrow> f32 list \<Rightarrow> 'd RNNoiseWrapper32 \<Rightarrow> 'd RNNoiseWrapper32" where
  "gateFrame32 vad frame w =
     (let postRms = computeRms32 frame kRNNoiseFrameSize;
          w1 = updateNoiseFloor32 postRms vad w;
          (targetGain, w2) = computeGateTarget32 vad postRms w1
      in smoothGate32 targetGain w2)"

text \<open>
  Steps 10 to 13: the gain applied to the frame, the spectral clamp, the soft
  silence, output RMS and the frame counter.
\<close>

definition finishFrame32 ::
  "f32 \<Rightarrow> f32 list \<Rightarrow> 'd RNNoiseWrapper32 \<Rightarrow> f32 list \<times> 'd RNNoiseWrapper32" where
  "finishFrame32 vad frame w =
     (let f7 = map (\<lambda>s. fmul s (smoothGain_32 w)) frame;
          f8 = spectralClamp32 f7 vad w;
          (f9, w1) = applySoftSilence32 f8 w;
          outRms = computeRms32 f9 kRNNoiseFrameSize;
          m1 = (metrics_32 w1)\<lparr>outputRms_32 := outRms\<rparr>;
          m2 = m1\<lparr>framesProcessed_32 := framesProcessed_32 m1 + 1\<rparr>
      in (f9, w1\<lparr>metrics_32 := m2\<rparr>))"

definition suppressFrame32 ::
  "('d \<Rightarrow> f32 list \<Rightarrow> f32 \<times> 'd \<times> f32 list) \<Rightarrow> 'd \<Rightarrow> 'd \<Rightarrow> f32 \<Rightarrow> f32 list \<Rightarrow>
   'd RNNoiseWrapper32 \<Rightarrow> f32 \<times> f32 list \<times> 'd RNNoiseWrapper32" where
  "suppressFrame32 rnnoise_process_frame d1 d2 level frame w =
     (let (vad, f6, w1) = denoiseAndFilter32 rnnoise_process_frame d1 d2 level frame w;
          w2 = gateFrame32 vad f6 w1;
          (f9, w3) = finishFrame32 vad f6 w2
      in (vad, f9, w3))"

definition processFrame32 ::
  "('d \<Rightarrow> f32 list \<Rightarrow> f32 \<times> 'd \<times> f32 list) \<Rightarrow> f32 list \<Rightarrow> 'd RNNoiseWrapper32 \<Rightarrow>
   f32 \<times> f32 list \<times> 'd RNNoiseWrapper32" where
  "processFrame32 rnnoise_process_frame frame w =
     (case state_32 w of
        None \<Rightarrow> (Num 0, frame, w)
      | Some d1 \<Rightarrow>
          (case state2_32 w of
             None \<Rightarrow> (Num 0, frame, w)
           | Some d2 \<Rightarrow>
               (let level = suppressionLevel_32 w
                in if fle level (Num 0) then bypassFrame32 frame w
                   else suppressFrame32 rnnoise_process_frame d1 d2 level frame w)))"

section \<open>Runs\<close>


section \<open>Concrete inputs\<close>

text \<open>
  Inputs at which the theorems below are instantiated: a stand-in for the denoiser that
  returns the frame as it is with VAD 0, the wrapper after a successful \<open>init\<close>, and
  that wrapper with the suppression level set to 0.
\<close>

definition denoiser_stub :: "unit \<Rightarrow> real list \<Rightarrow> real \<times> unit \<times> real list" where
  "denoiser_stub d frame = (0, d, frame)"

definition wrapper_ready :: "unit RNNoiseWrapper" where
  "wrapper_ready = snd (init (Some ()) (Some ()) RNNoiseWrapper_default)"

definition wrapper_bypass :: "unit RNNoiseWrapper" where
  "wrapper_bypass = setSuppressionLevel 0 wrapper_ready"

text \<open>
  Library answers under which \<open>start\<close> succeeds: every call returns \<open>paNoError\<close>,
  both denoiser handles are created, the default devices are 0 (input) and 1 (output).
\<close>

definition backend_ok :: "unit Backend" where
  "backend_ok =
     \<lparr>pa_Initialize = 0, rnnoise_create1 = Some (), rnnoise_create2 = Some (),
      pa_GetDefaultInputDevice = 0, pa_GetDefaultOutputDevice = 1,
      pa_OpenCapture = 0, pa_OpenCaptureShared = 0, pa_OpenOutput = 0,
      pa_OpenOutputShared = 0, pa_StartCapture = 0, pa_StartOutput = 0,
      pa_GetErrorText = (\<lambda>err. ''PortAudio error''), win32 = True\<rparr>"

text \<open>
  Further concrete inputs: library answers with no default input device, and with the
  second denoiser handle not created; the configuration the user interface sends for
  its entry ``No Output (Mute)''; the engine after a successful start with the default
  configuration, and after one with the mute configuration.
\<close>

definition backend_no_input :: "unit Backend" where
  "backend_no_input = backend_ok\<lparr>pa_GetDefaultInputDevice := paNoDevice\<rparr>"

definition backend_one_handle :: "unit Backend" where
  "backend_one_handle = backend_ok\<lparr>rnnoise_create2 := None\<rparr>"

definition config_mute :: AudioConfig where
  "config_mute = AudioConfig_default\<lparr>outputDeviceIndex := - 2\<rparr>"

definition engine_running :: "unit AudioEngine" where
  "engine_running = snd (start backend_ok AudioConfig_default AudioEngine_default)"

definition engine_muted :: "unit AudioEngine" where
  "engine_muted = snd (start backend_ok config_mute AudioEngine_default)"

text \<open>
  Binary32 inputs: a denoiser stand-in that returns the frame as it is with VAD 0, and
  the wrapper after a successful \<open>init32\<close>.
\<close>

definition denoiser_stub32 :: "unit \<Rightarrow> f32 list \<Rightarrow> f32 \<times> unit \<times> f32 list" where
  "denoiser_stub32 d frame = (Num 0, d, frame)"

definition wrapper32_ready :: "unit RNNoiseWrapper32" where
  "wrapper32_ready = snd (init32 (Some ()) (Some ()) RNNoiseWrapper32_default)"

section \<open>Properties\<close>

subsection \<open>Shared facts\<close>

lemmas tuning_defs =
  kRNNoiseFrameSize_def kGateCloseCoeff_def kGateOpenCoeff_def kMinGateGain_def
  kHoldFrames_def kVadHysteresis_def kCalibrationPeriod_def kCalibrationAlpha_def
  kTrackingAlpha_def kFloorMultiplier_def kAbsoluteMinFloor_def kFallbackThreshold_def
  kSpectralClampMult_def kClampGateThreshold_def kSoftSilenceLevel_def
  kNoiseShapeCoeff_def kSoftSilenceGateThresh_def

lemma std_clamp_max_min: "lo \<le> hi \<Longrightarrow> std_clamp v lo hi = max lo (min hi v)"
  by (simp add: std_clamp_def max_def min_def)

lemma std_max_max: "std_max a b = max a b"
  by (simp add: std_max_def max_def)

subsection \<open>Gate target\<close>

text \<open>
  Claim C1. For every call of \<open>computeGateTarget\<close> with the frame's VAD probability
  \<open>vad\<close>, the post-filter RMS \<open>post_rms\<close> and an object holding the noise-floor
  estimate, the hold counter and the user threshold \<open>vt\<close>: with
  \<open>gate_thresh = (if noise_floor > 0.0003 then noise_floor * 1.5 else 0.002)\<close>,
  if \<open>vad \<ge> vt\<close>, or \<open>vad \<ge> vt - 0.12\<close> and \<open>post_rms > 2 * gate_thresh\<close>, the hold
  counter is set to 15 and the target is 1; otherwise, if the hold counter is positive
  it is decremented by one and the target is 1; otherwise, if \<open>post_rms < gate_thresh\<close>
  the target is 0; otherwise the target is
  \<open>(post_rms - gate_thresh) / max gate_thresh 0.0001\<close> clamped to \<open>[0, 0.5]\<close>. Nothing
  but the hold counter changes.
\<close>

theorem computeGateTarget_spec:
  "computeGateTarget vad post_rms w =
     (let vt = vadThreshold w;
          noise_floor = noiseFloorEstimate w;
          hold_counter = holdCounter w;
          gate_thresh = (if noise_floor > 0.0003 then noise_floor * 1.5 else 0.002)
      in if vad \<ge> vt \<or> (vad \<ge> vt - 0.12 \<and> post_rms > 2 * gate_thresh)
         then (1, w\<lparr>holdCounter := 15\<rparr>)
         else if hold_counter > 0 then (1, w\<lparr>holdCounter := hold_counter - 1\<rparr>)
         else if post_rms < gate_thresh then (0, w)
         else (max 0 (min 0.5 ((post_rms - gate_thresh) / max gate_thresh 0.0001)), w))"
  by (simp add: computeGateTarget_def Let_def tuning_defs std_clamp_max_min std_max_max
      mult.commute)

text \<open>
  The theorem at a frame just above the fallback threshold, on the object as
  constructed: no speech, no hold, ratio \<open>0.001 / 0.002\<close>.
\<close>

theorem computeGateTarget_witness:
  "computeGateTarget 0.1 0.003 (RNNoiseWrapper_default :: unit RNNoiseWrapper)
     = (0.5, RNNoiseWrapper_default)"
  using computeGateTarget_spec [of "0.1" "0.003" "RNNoiseWrapper_default :: unit RNNoiseWrapper"]
  by (simp add: RNNoiseWrapper_default_def)

subsection \<open>Noise-floor update\<close>


lemma updateNoiseFloor_vadThreshold [simp]:
  "vadThreshold (updateNoiseFloor p v w) = vadThreshold w"
  by (simp add: updateNoiseFloor_def Let_def split: prod.splits)

lemma updateNoiseFloor_published:
  "noiseFloor (metrics (updateNoiseFloor p v w)) = noiseFloorEstimate (updateNoiseFloor p v w)"
  by (simp add: updateNoiseFloor_def Let_def split: prod.splits)


lemma updateNoiseFloor_keeps:
  "kAbsoluteMinFloor \<le> noiseFloorEstimate w \<Longrightarrow>
   kAbsoluteMinFloor \<le> noiseFloorEstimate (updateNoiseFloor p v w)"
  by (simp add: updateNoiseFloor_def Let_def std_max_def split: prod.splits)





subsection \<open>What each stage leaves alone\<close>

lemma foldl_squares: "foldl (\<lambda>sum x. sum + x * x) a xs = a + (\<Sum>x\<leftarrow>xs. x * x)"
  by (induction xs arbitrary: a) (simp_all add: add.assoc)

lemma computeRms_frame:
  "length frame = kRNNoiseFrameSize \<Longrightarrow>
   computeRms frame kRNNoiseFrameSize = sqrt ((\<Sum>x\<leftarrow>frame. x * x) / 480)"
  by (simp add: computeRms_def foldl_squares kRNNoiseFrameSize_def)

lemma softSilenceLoop_keeps:
  "metrics (snd (softSilenceLoop sc f w)) = metrics w"
  "smoothGain (snd (softSilenceLoop sc f w)) = smoothGain w"
  "state (snd (softSilenceLoop sc f w)) = state w"
  "state2 (snd (softSilenceLoop sc f w)) = state2 w"
  by (induction f arbitrary: w; simp add: comfortNoiseSample_def Let_def case_prod_beta)+

lemma applySoftSilence_keeps:
  "metrics (snd (applySoftSilence f w)) = metrics w"
  "smoothGain (snd (applySoftSilence f w)) = smoothGain w"
  "state (snd (applySoftSilence f w)) = state w"
  "state2 (snd (applySoftSilence f w)) = state2 w"
  by (simp_all add: applySoftSilence_def Let_def softSilenceLoop_keeps)

lemma computeGateTarget_keeps:
  "metrics (snd (computeGateTarget v p w)) = metrics w"
  "smoothGain (snd (computeGateTarget v p w)) = smoothGain w"
  "state (snd (computeGateTarget v p w)) = state w"
  "state2 (snd (computeGateTarget v p w)) = state2 w"
  by (simp_all add: computeGateTarget_def Let_def)

lemma updateNoiseFloor_keeps_others:
  "framesProcessed (metrics (updateNoiseFloor p v w)) = framesProcessed (metrics w)"
  "state (updateNoiseFloor p v w) = state w"
  "state2 (updateNoiseFloor p v w) = state2 w"
  by (simp_all add: updateNoiseFloor_def Let_def case_prod_beta)

lemma smoothGate_keeps:
  "framesProcessed (metrics (smoothGate t w)) = framesProcessed (metrics w)"
  "state (smoothGate t w) = state w"
  "state2 (smoothGate t w) = state2 w"
  by (simp_all add: smoothGate_def Let_def)

lemma suppressFrame_framesProcessed:
  "framesProcessed (metrics (snd (snd (suppressFrame rnn d1 d2 level frame w)))) =
   framesProcessed (metrics w) + 1"
  by (simp add: suppressFrame_def Let_def case_prod_beta applySoftSilence_keeps
      smoothGate_keeps computeGateTarget_keeps updateNoiseFloor_keeps_others)

lemma processFrame_null:
  "state w = None \<or> state2 w = None \<Longrightarrow> processFrame rnn frame w = (0, frame, w)"
  by (auto simp: processFrame_def split: option.splits)

lemma processFrame_bypass_eq:
  "state w \<noteq> None \<Longrightarrow> state2 w \<noteq> None \<Longrightarrow> suppressionLevel w \<le> 0 \<Longrightarrow>
   processFrame rnn frame w = bypassFrame frame w"
  by (auto simp: processFrame_def split: option.splits)

lemma processFrame_suppress_eq:
  "state w = Some d1 \<Longrightarrow> state2 w = Some d2 \<Longrightarrow> \<not> suppressionLevel w \<le> 0 \<Longrightarrow>
   processFrame rnn frame w = suppressFrame rnn d1 d2 (suppressionLevel w) frame w"
  by (simp add: processFrame_def)

lemma processFrame_framesProcessed:
  assumes "state w \<noteq> None" and "state2 w \<noteq> None"
  shows "framesProcessed (metrics (snd (snd (processFrame rnn frame w)))) =
         framesProcessed (metrics w) + 1"
proof (cases "suppressionLevel w \<le> 0")
  case True
  with assms show ?thesis
    by (simp add: processFrame_bypass_eq bypassFrame_def Let_def)
next
  case False
  from assms obtain d1 d2 where "state w = Some d1" "state2 w = Some d2" by auto
  with False show ?thesis
    by (simp add: processFrame_suppress_eq suppressFrame_framesProcessed)
qed

subsection \<open>The concrete inputs\<close>

lemma wrapper_ready_handles:
  "state wrapper_ready \<noteq> None" "state2 wrapper_ready \<noteq> None"
  "state wrapper_bypass \<noteq> None" "state2 wrapper_bypass \<noteq> None"
  "suppressionLevel wrapper_bypass \<le> 0"
  by (simp_all add: wrapper_bypass_def wrapper_ready_def init_def initFilters_def Let_def
      RNNoiseWrapper_default_def setSuppressionLevel_def std_clamp_def)

subsection \<open>Bypass\<close>

text \<open>
  Claim C3. For every 480-sample frame, when the suppression level read by
  \<open>processFrame\<close> is at most 0 (the level is read once both handles are found
  non-null), the call leaves every sample of the frame as it is, stores the frame's RMS
  to both \<open>inputRms\<close> and \<open>outputRms\<close>, stores 0 to \<open>vadProbability\<close> and 1 to
  \<open>currentGain\<close>, increments \<open>framesProcessed\<close> by one, and returns 0.
\<close>

theorem processFrame_bypass:
  assumes "state w \<noteq> None" and "state2 w \<noteq> None"
    and "suppressionLevel w \<le> 0" and "length frame = kRNNoiseFrameSize"
  shows "case processFrame rnn frame w of
           (ret, frame', w') \<Rightarrow>
             ret = 0 \<and> frame' = frame
             \<and> inputRms (metrics w') = sqrt ((\<Sum>x\<leftarrow>frame. x * x) / 480)
             \<and> outputRms (metrics w') = sqrt ((\<Sum>x\<leftarrow>frame. x * x) / 480)
             \<and> vadProbability (metrics w') = 0
             \<and> currentGain (metrics w') = 1
             \<and> framesProcessed (metrics w') = framesProcessed (metrics w) + 1"
  using assms
  by (simp add: processFrame_bypass_eq bypassFrame_def Let_def computeRms_frame)

text \<open>The theorem on the initialised wrapper at level 0 and a constant frame.\<close>

theorem processFrame_bypass_witness:
  "state wrapper_bypass \<noteq> None \<and> state2 wrapper_bypass \<noteq> None
   \<and> suppressionLevel wrapper_bypass \<le> 0
   \<and> length (replicate 480 (1 / 2 :: real)) = kRNNoiseFrameSize
   \<and> (case processFrame denoiser_stub (replicate 480 (1 / 2)) wrapper_bypass of
         (ret, frame', w') \<Rightarrow>
           ret = 0 \<and> frame' = replicate 480 (1 / 2)
           \<and> inputRms (metrics w') = sqrt ((\<Sum>x\<leftarrow>replicate 480 (1 / 2). x * x) / 480)
           \<and> outputRms (metrics w') = sqrt ((\<Sum>x\<leftarrow>replicate 480 (1 / 2). x * x) / 480)
           \<and> vadProbability (metrics w') = 0
           \<and> currentGain (metrics w') = 1
           \<and> framesProcessed (metrics w') = framesProcessed (metrics wrapper_bypass) + 1)"
proof -
  have len: "length (replicate 480 (1 / 2 :: real)) = kRNNoiseFrameSize"
    by (simp add: kRNNoiseFrameSize_def)
  from processFrame_bypass [OF wrapper_ready_handles(3,4,5) len, of denoiser_stub]
    wrapper_ready_handles(3,4,5) len
  show ?thesis by blast
qed

text \<open>
  Claim C10. When the suppression level read by \<open>processFrame\<close> is at most 0, the call
  leaves the whole gate and filter state as it is (\<open>smoothGain\<close>, the hold counter,
  the noise-floor estimate, the calibration count, the comfort-noise state and shaping
  history, both biquads) and does not store the \<open>noiseFloor\<close> metric: the object
  after the call differs from the object before it in at most the five metrics
  \<open>inputRms\<close>, \<open>outputRms\<close>, \<open>vadProbability\<close>, \<open>currentGain\<close> and
  \<open>framesProcessed\<close>.
\<close>

theorem processFrame_bypass_frame_condition:
  assumes "state w \<noteq> None" and "state2 w \<noteq> None" and "suppressionLevel w \<le> 0"
  shows "let w' = snd (snd (processFrame rnn frame w))
         in smoothGain w' = smoothGain w \<and> holdCounter w' = holdCounter w
            \<and> noiseFloorEstimate w' = noiseFloorEstimate w
            \<and> calibrationFrames w' = calibrationFrames w
            \<and> noiseState w' = noiseState w \<and> prevNoise w' = prevNoise w
            \<and> hpf w' = hpf w \<and> lpf w' = lpf w
            \<and> noiseFloor (metrics w') = noiseFloor (metrics w)
            \<and> w' = w\<lparr>metrics := (metrics w)\<lparr>inputRms := inputRms (metrics w'),
                        outputRms := outputRms (metrics w'),
                        vadProbability := vadProbability (metrics w'),
                        currentGain := currentGain (metrics w'),
                        framesProcessed := framesProcessed (metrics w')\<rparr>\<rparr>"
  using assms
  by (simp add: processFrame_bypass_eq bypassFrame_def Let_def)

text \<open>The theorem on the initialised wrapper at level 0 and a constant frame.\<close>

theorem processFrame_bypass_frame_condition_witness:
  "state wrapper_bypass \<noteq> None \<and> state2 wrapper_bypass \<noteq> None
   \<and> suppressionLevel wrapper_bypass \<le> 0
   \<and> (let w' = snd (snd (processFrame denoiser_stub (replicate 480 (1 / 2)) wrapper_bypass))
       in smoothGain w' = smoothGain wrapper_bypass \<and> holdCounter w' = holdCounter wrapper_bypass
          \<and> noiseFloorEstimate w' = noiseFloorEstimate wrapper_bypass
          \<and> calibrationFrames w' = calibrationFrames wrapper_bypass
          \<and> noiseState w' = noiseState wrapper_bypass \<and> prevNoise w' = prevNoise wrapper_bypass
          \<and> hpf w' = hpf wrapper_bypass \<and> lpf w' = lpf wrapper_bypass
          \<and> noiseFloor (metrics w') = noiseFloor (metrics wrapper_bypass)
          \<and> w' = wrapper_bypass\<lparr>metrics := (metrics wrapper_bypass)\<lparr>inputRms := inputRms (metrics w'),
                      outputRms := outputRms (metrics w'),
                      vadProbability := vadProbability (metrics w'),
                      currentGain := currentGain (metrics w'),
                      framesProcessed := framesProcessed (metrics w')\<rparr>\<rparr>)"
  using processFrame_bypass_frame_condition [OF wrapper_ready_handles(3,4,5), of denoiser_stub
      "replicate 480 (1 / 2)"] wrapper_ready_handles(3,4,5)
  by blast

subsection \<open>Frame counter\<close>

lemma word64_succ_mono:
  fixes n :: "64 word"
  assumes "n \<noteq> - 1"
  shows "unat (n + 1) = unat n + 1"
proof -
  from assms have "1 + n \<noteq> 0"
    by (metis add.commute add_eq_0_iff)
  then have "unat (1 + n) = Suc (unat n)" by (rule unatSuc)
  then show ?thesis by (simp add: add.commute)
qed

text \<open>
  Claim C5 as stated fails: on the object as constructed (both handles null) the call
  returns at its first line and \<open>framesProcessed\<close> is not incremented.
\<close>

theorem framesProcessed_counterexample:
  "\<not> framesProcessed (metrics (snd (snd (processFrame denoiser_stub (replicate 480 0)
        (RNNoiseWrapper_default :: unit RNNoiseWrapper)))))
     = framesProcessed (metrics (RNNoiseWrapper_default :: unit RNNoiseWrapper)) + 1"
  by (simp add: processFrame_def RNNoiseWrapper_default_def AudioMetrics_default_def)

text \<open>
  Claim C5, amended. With a null handle \<open>processFrame\<close> returns 0 and leaves the frame
  and the whole object, \<open>framesProcessed\<close> included, as they are. With both handles
  non-null every call increments \<open>framesProcessed\<close> by exactly one (in the 64-bit
  counter). Either way the counter does not decrease, short of its wrap at
  \<open>2^64 - 1\<close>.
\<close>

theorem framesProcessed_step:
  "(state w = None \<or> state2 w = None \<longrightarrow> processFrame rnn frame w = (0, frame, w))
   \<and> (state w \<noteq> None \<and> state2 w \<noteq> None \<longrightarrow>
        framesProcessed (metrics (snd (snd (processFrame rnn frame w))))
          = framesProcessed (metrics w) + 1)
   \<and> (framesProcessed (metrics w) \<noteq> - 1 \<longrightarrow>
        unat (framesProcessed (metrics w))
          \<le> unat (framesProcessed (metrics (snd (snd (processFrame rnn frame w))))))"
proof (intro conjI impI)
  assume "state w = None \<or> state2 w = None"
  then show "processFrame rnn frame w = (0, frame, w)" by (rule processFrame_null)
next
  assume "state w \<noteq> None \<and> state2 w \<noteq> None"
  then show "framesProcessed (metrics (snd (snd (processFrame rnn frame w))))
          = framesProcessed (metrics w) + 1"
    by (simp add: processFrame_framesProcessed)
next
  assume n: "framesProcessed (metrics w) \<noteq> - 1"
  show "unat (framesProcessed (metrics w))
          \<le> unat (framesProcessed (metrics (snd (snd (processFrame rnn frame w)))))"
  proof (cases "state w = None \<or> state2 w = None")
    case True
    then show ?thesis by (simp add: processFrame_null)
  next
    case False
    then have "framesProcessed (metrics (snd (snd (processFrame rnn frame w))))
          = framesProcessed (metrics w) + 1"
      by (simp add: processFrame_framesProcessed)
    with n show ?thesis by (simp add: word64_succ_mono)
  qed
qed

text \<open>
  The theorem on the object as constructed (null handles) and on the initialised
  wrapper (counter 0).
\<close>

theorem framesProcessed_step_witness:
  "(state (RNNoiseWrapper_default :: unit RNNoiseWrapper) = None
      \<or> state2 (RNNoiseWrapper_default :: unit RNNoiseWrapper) = None)
   \<and> processFrame denoiser_stub (replicate 480 0) RNNoiseWrapper_default
       = (0, replicate 480 0, RNNoiseWrapper_default)
   \<and> (state wrapper_ready \<noteq> None \<and> state2 wrapper_ready \<noteq> None)
   \<and> framesProcessed (metrics (snd (snd (processFrame denoiser_stub (replicate 480 0) wrapper_ready))))
       = framesProcessed (metrics wrapper_ready) + 1
   \<and> framesProcessed (metrics wrapper_ready) \<noteq> - 1
   \<and> unat (framesProcessed (metrics wrapper_ready))
       \<le> unat (framesProcessed (metrics (snd (snd (processFrame denoiser_stub (replicate 480 0) wrapper_ready)))))"
proof -
  have a: "state (RNNoiseWrapper_default :: unit RNNoiseWrapper) = None
      \<or> state2 (RNNoiseWrapper_default :: unit RNNoiseWrapper) = None"
    by (simp add: RNNoiseWrapper_default_def)
  have b: "state wrapper_ready \<noteq> None \<and> state2 wrapper_ready \<noteq> None"
    by (simp add: wrapper_ready_handles)
  have c: "framesProcessed (metrics wrapper_ready) \<noteq> - 1"
    by (simp add: wrapper_ready_def init_def initFilters_def Let_def)
  from a b c
    framesProcessed_step [of "RNNoiseWrapper_default :: unit RNNoiseWrapper" denoiser_stub "replicate 480 0"]
    framesProcessed_step [of wrapper_ready denoiser_stub "replicate 480 0"]
  show ?thesis by blast
qed

subsection \<open>Reset on start\<close>

lemma openStreams_rnnoise: "rnnoise (snd (openStreams be e)) = rnnoise e"
  by (simp add: openStreams_def Let_def)

lemma start_success_rnnoise:
  "fst (start be cfg e) = [] \<Longrightarrow>
   rnnoise (snd (start be cfg e)) = snd (init (rnnoise_create1 be) (rnnoise_create2 be) (rnnoise e))"
  by (simp add: start_def Let_def case_prod_beta openStreams_rnnoise split: if_splits)

lemma init_fresh:
  "framesProcessed (metrics (snd (init c1 c2 w))) = 0"
  "smoothGain (snd (init c1 c2 w)) = 1"
  "holdCounter (snd (init c1 c2 w)) = 0"
  "noiseFloorEstimate (snd (init c1 c2 w)) = 0"
  "calibrationFrames (snd (init c1 c2 w)) = 0"
  "noiseState (snd (init c1 c2 w)) = 0x12345678"
  "x1 (hpf (snd (init c1 c2 w))) = 0" "x2 (hpf (snd (init c1 c2 w))) = 0"
  "y1 (hpf (snd (init c1 c2 w))) = 0" "y2 (hpf (snd (init c1 c2 w))) = 0"
  "x1 (lpf (snd (init c1 c2 w))) = 0" "x2 (lpf (snd (init c1 c2 w))) = 0"
  "y1 (lpf (snd (init c1 c2 w))) = 0" "y2 (lpf (snd (init c1 c2 w))) = 0"
  by (simp_all add: init_def initFilters_def reset_def Let_def)

text \<open>
  Claim C9. Every \<open>init\<close> of the wrapper, and so every successful \<open>start\<close> of the
  engine, resets the DSP state: \<open>framesProcessed\<close> is 0, \<open>smoothGain\<close> is 1, the hold
  counter, the noise-floor estimate and the calibration count are 0, the comfort-noise
  generator is seeded with \<open>0x12345678\<close>, and the four delay cells of each biquad are
  0.
\<close>

theorem init_resets_dsp_state:
  "(let fresh = (\<lambda>w'. framesProcessed (metrics w') = 0 \<and> smoothGain w' = 1
                    \<and> holdCounter w' = 0 \<and> noiseFloorEstimate w' = 0
                    \<and> calibrationFrames w' = 0 \<and> noiseState w' = 0x12345678
                    \<and> x1 (hpf w') = 0 \<and> x2 (hpf w') = 0 \<and> y1 (hpf w') = 0 \<and> y2 (hpf w') = 0
                    \<and> x1 (lpf w') = 0 \<and> x2 (lpf w') = 0 \<and> y1 (lpf w') = 0 \<and> y2 (lpf w') = 0)
    in fresh (snd (init c1 c2 w))
       \<and> (fst (start be cfg e) = [] \<longrightarrow> fresh (rnnoise (snd (start be cfg e)))))"
  by (simp add: Let_def init_fresh start_success_rnnoise)

text \<open>
  The theorem at a successful start of the engine as constructed, and at a second
  \<open>init\<close> of an initialised wrapper.
\<close>

theorem init_resets_dsp_state_witness:
  "fst (start backend_ok AudioConfig_default AudioEngine_default) = []
   \<and> (let fresh = (\<lambda>w'. framesProcessed (metrics w') = 0 \<and> smoothGain w' = 1
                    \<and> holdCounter w' = 0 \<and> noiseFloorEstimate w' = 0
                    \<and> calibrationFrames w' = 0 \<and> noiseState w' = 0x12345678
                    \<and> x1 (hpf w') = 0 \<and> x2 (hpf w') = 0 \<and> y1 (hpf w') = 0 \<and> y2 (hpf w') = 0
                    \<and> x1 (lpf w') = 0 \<and> x2 (lpf w') = 0 \<and> y1 (lpf w') = 0 \<and> y2 (lpf w') = 0)
      in fresh (snd (init (Some ()) (Some ()) wrapper_ready))
         \<and> fresh (rnnoise (snd (start backend_ok AudioConfig_default AudioEngine_default))))"
proof -
  have ok: "fst (start backend_ok AudioConfig_default AudioEngine_default) = []"
    by (simp add: start_def backend_ok_def AudioConfig_default_def AudioEngine_default_def
        openStreams_def init_def Let_def paNoError_def paNoDevice_def
        RNNoiseWrapper_default_def initFilters_def)
  from ok init_resets_dsp_state [of "Some ()" "Some ()" wrapper_ready backend_ok
      AudioConfig_default AudioEngine_default]
  show ?thesis by (simp add: Let_def)
qed

subsection \<open>Stop\<close>

lemma stop_not_running: "\<not> running e \<Longrightarrow> stop e = e"
  by (simp add: stop_def)

lemma running_stop: "\<not> running (stop e)"
  by (simp add: stop_def Let_def Pa_Terminate_def closeStreams_def)

text \<open>
  Claim C8. \<open>stop\<close> is idempotent: two calls in sequence leave the engine as one call
  does, from every state, running or stopped; after a \<open>stop\<close> the engine is not
  running, and a \<open>stop\<close> of an engine that is not running changes nothing.
\<close>

theorem stop_idempotent:
  "stop (stop e) = stop e \<and> \<not> running (stop e) \<and> (\<not> running e \<longrightarrow> stop e = e)"
  by (simp add: stop_not_running running_stop)

lemma start_ok_running: "running engine_running"
  by (simp add: engine_running_def start_def backend_ok_def AudioConfig_default_def
      AudioEngine_default_def openStreams_def init_def Let_def paNoError_def paNoDevice_def
      RNNoiseWrapper_default_def initFilters_def)

text \<open>The theorem on the engine after a successful start, and on that engine stopped.\<close>

theorem stop_idempotent_witness:
  "running engine_running
   \<and> stop (stop engine_running) = stop engine_running
   \<and> \<not> running (stop engine_running)
   \<and> stop (stop (stop engine_running)) = stop (stop engine_running)"
  using start_ok_running stop_idempotent [of engine_running]
    stop_idempotent [of "stop engine_running"]
  by simp

subsection \<open>Failed start\<close>

text \<open>
  Claim C6 says that a failed \<open>start\<close> returns a non-empty error string and leaves no
  ring buffer, denoiser state or open stream behind. The code at two failing starts of
  the engine as constructed: with no input device, \<open>openStreams\<close> fails, the error
  string is returned, and both ring buffers allocated earlier in \<open>start\<close> are still
  held; with the second denoiser handle not created, \<open>init\<close> fails, the first handle
  is still held, and so are both ring buffers. (\<open>stop\<close> releases the rings and
  destroys the denoiser; the failure paths of \<open>start\<close> do not.)
\<close>

theorem start_failure_leaves_rings:
  "fst (start backend_no_input AudioConfig_default AudioEngine_default)
     = ''No input device available''
   \<and> captureRing (snd (start backend_no_input AudioConfig_default AudioEngine_default))
       = Some (RingBuffer_new kRingCapacity)
   \<and> outputRing (snd (start backend_no_input AudioConfig_default AudioEngine_default))
       = Some (RingBuffer_new kRingCapacity)
   \<and> fst (start backend_one_handle AudioConfig_default AudioEngine_default)
       = ''RNNoise initialization failed''
   \<and> state (rnnoise (snd (start backend_one_handle AudioConfig_default AudioEngine_default)))
       = Some ()
   \<and> captureRing (snd (start backend_one_handle AudioConfig_default AudioEngine_default))
       = Some (RingBuffer_new kRingCapacity)
   \<and> outputRing (snd (start backend_one_handle AudioConfig_default AudioEngine_default))
       = Some (RingBuffer_new kRingCapacity)"
  by (simp add: start_def backend_no_input_def backend_one_handle_def backend_ok_def
      AudioConfig_default_def AudioEngine_default_def openStreams_def init_def Let_def
      paNoError_def paNoDevice_def RNNoiseWrapper_default_def initFilters_def
      Pa_Terminate_def destroy_def)

subsection \<open>Mute output\<close>

lemma roundUpPow2_4096: "roundUpPow2 1 4096 = 4096"
  by (simp add: roundUpPow2.simps)

lemma RingBuffer_new_capacity: "RingBuffer_new kRingCapacity = \<lparr>capacity = 4096, readable = []\<rparr>"
  by (simp add: RingBuffer_new_def kRingCapacity_def roundUpPow2_4096)

lemma engine_muted_eq:
  "engine_muted =
     \<lparr>running = True, shouldRestart = False, config = config_mute,
      captureStream = Some \<lparr>streamDevice = 0, streamActive = True\<rparr>,
      outputStream = Some \<lparr>streamDevice = 1, streamActive = True\<rparr>,
      captureRing = Some \<lparr>capacity = 4096, readable = []\<rparr>,
      outputRing = Some \<lparr>capacity = 4096, readable = []\<rparr>,
      rnnoise = wrapper_ready, processingThread = True, paInitCount = 1\<rparr>"
  by (simp add: engine_muted_def start_def backend_ok_def config_mute_def
      AudioConfig_default_def AudioEngine_default_def openStreams_def Let_def
      paNoError_def paNoDevice_def RingBuffer_new_capacity wrapper_ready_def
      case_prod_beta init_def initFilters_def RNNoiseWrapper_default_def)

text \<open>
  Claim C4 says that with output index \<open>-2\<close> the output stream is opened on the
  default output device and the output callback writes zeros whatever the output ring
  holds. The code after a successful start with that configuration: the output stream
  is on the default output device; then, with the suppression level set to 0, one
  capture callback delivering 480 samples of value \<open>1/2\<close>, one iteration of the
  processing loop and one output callback for 480 samples leave those 480 samples in the
  output buffer, not zeros.
\<close>

theorem mute_output_plays_ring:
  "outputDeviceIndex (config engine_muted) = - 2
   \<and> running engine_muted
   \<and> map_option streamDevice (outputStream engine_muted)
       = Some (pa_GetDefaultOutputDevice backend_ok)
   \<and> Option.bind
        (captureCallback (replicate 480 (1 / 2)) 480 0
           (AudioEngine_setSuppressionLevel 0 engine_muted))
        (\<lambda>e1. Option.bind (processingStep denoiser_stub e1)
           (\<lambda>e2. map_option fst (outputCallback 480 0 e2)))
       = Some (replicate 480 (1 / 2))"
  by (simp add: engine_muted_eq config_mute_def backend_ok_def
      AudioEngine_setSuppressionLevel_def setSuppressionLevel_def std_clamp_def
      captureCallback_def RingBuffer_write_def available_write_def
      processingStep_def RingBuffer_read_def available_read_def kRNNoiseFrameSize_def
      processFrame_def bypassFrame_def outputCallback_def Let_def
      wrapper_ready_def init_def initFilters_def RNNoiseWrapper_default_def)

text \<open>
  The theorem put to use: in that trace the output buffer is not the 480 zeros that a
  muted output would hold.
\<close>

theorem mute_output_not_silent:
  "Option.bind
     (captureCallback (replicate 480 (1 / 2)) 480 0
        (AudioEngine_setSuppressionLevel 0 engine_muted))
     (\<lambda>e1. Option.bind (processingStep denoiser_stub e1)
        (\<lambda>e2. map_option fst (outputCallback 480 0 e2)))
   \<noteq> Some (replicate 480 0)"
  using mute_output_plays_ring by simp

subsection \<open>Supporting facts on the engine\<close>

text \<open>
  The output callback's buffer does not depend on the configuration, and a negative
  output index resolves to the default output device.
\<close>

lemma outputCallback_ignores_config:
  "map_option fst (outputCallback n fl (e\<lparr>config := c\<rparr>)) = map_option fst (outputCallback n fl e)"
  by (simp add: outputCallback_def Let_def case_prod_beta split: option.splits)

lemma openStreams_negative_output:
  "outputDeviceIndex (config e) < 0 \<Longrightarrow> fst (openStreams be e) = [] \<Longrightarrow>
   map_option streamDevice (outputStream (snd (openStreams be e)))
     = Some (pa_GetDefaultOutputDevice be)"
  by (simp add: openStreams_def Let_def split: if_splits)

text \<open>
  What the failure paths of \<open>start\<close> do unwind, from a stopped engine with no stream
  open: the engine is not running, no stream is open, and the library's initialisation
  count is back to what it was.
\<close>

lemma start_success_running:
  "fst (start be cfg e) = [] \<Longrightarrow> running (snd (start be cfg e))"
  by (simp add: start_def Let_def case_prod_beta split: if_splits)

lemma openStreams_failure_streams:
  "captureStream e = None \<Longrightarrow> outputStream e = None \<Longrightarrow> fst (openStreams be e) \<noteq> [] \<Longrightarrow>
   captureStream (snd (openStreams be e)) = None \<and> outputStream (snd (openStreams be e)) = None"
  by (auto simp: openStreams_def Let_def split: if_splits)

lemma openStreams_keeps:
  "running (snd (openStreams be e)) = running e"
  "paInitCount (snd (openStreams be e)) = paInitCount e"
  "captureRing (snd (openStreams be e)) = captureRing e"
  "outputRing (snd (openStreams be e)) = outputRing e"
  by (simp_all add: openStreams_def Let_def)

lemma closeStreams_streams:
  "captureStream (closeStreams e) = None" "outputStream (closeStreams e) = None"
  "running (closeStreams e) = running e" "paInitCount (closeStreams e) = paInitCount e"
  by (simp_all add: closeStreams_def Let_def)

lemma start_failure_unwinds_streams:
  assumes "\<not> running e" and "captureStream e = None" and "outputStream e = None"
    and "fst (start be cfg e) \<noteq> []"
  shows "\<not> running (snd (start be cfg e))
         \<and> captureStream (snd (start be cfg e)) = None
         \<and> outputStream (snd (start be cfg e)) = None
         \<and> paInitCount (snd (start be cfg e)) = paInitCount e"
proof -
  let ?e4 = "e\<lparr>config := cfg, paInitCount := paInitCount e + 1,
               captureRing := Some (RingBuffer_new kRingCapacity),
               outputRing := Some (RingBuffer_new kRingCapacity),
               rnnoise := snd (init (rnnoise_create1 be) (rnnoise_create2 be) (rnnoise e))\<rparr>"
  have o: "fst (openStreams be ?e4) \<noteq> [] \<Longrightarrow>
      captureStream (snd (openStreams be ?e4)) = None \<and> outputStream (snd (openStreams be ?e4)) = None"
    using assms(2,3) by (intro openStreams_failure_streams) simp_all
  from assms(1,4) o show ?thesis
    by (simp add: start_def Let_def case_prod_beta Pa_Terminate_def openStreams_keeps
        closeStreams_streams assms(2,3) split: if_splits)
qed

subsection \<open>The noise floor through the pipeline\<close>

text \<open>
  Once the estimate and the stored metric are at least \<open>kAbsoluteMinFloor\<close>, every
  call of \<open>processFrame\<close> keeps them so: with a null handle and on the bypass path
  neither is written, and on the full path only \<open>updateNoiseFloor\<close> writes them.
\<close>

lemma stages_keep_noiseFloor:
  "noiseFloorEstimate (snd (softSilenceLoop sc f w)) = noiseFloorEstimate w"
  "noiseFloorEstimate (snd (applySoftSilence f w)) = noiseFloorEstimate w"
  "noiseFloorEstimate (snd (computeGateTarget v p w)) = noiseFloorEstimate w"
  "noiseFloorEstimate (smoothGate t w) = noiseFloorEstimate w"
  "noiseFloor (metrics (smoothGate t w)) = noiseFloor (metrics w)"
proof -
  show l: "noiseFloorEstimate (snd (softSilenceLoop sc f w)) = noiseFloorEstimate w" for sc f w
    by (induction f arbitrary: w) (simp_all add: comfortNoiseSample_def Let_def case_prod_beta)
  show "noiseFloorEstimate (snd (applySoftSilence f w)) = noiseFloorEstimate w"
    by (simp add: applySoftSilence_def Let_def l)
  show "noiseFloorEstimate (snd (computeGateTarget v p w)) = noiseFloorEstimate w"
    by (simp add: computeGateTarget_def Let_def)
  show "noiseFloorEstimate (smoothGate t w) = noiseFloorEstimate w"
    by (simp add: smoothGate_def Let_def)
  show "noiseFloor (metrics (smoothGate t w)) = noiseFloor (metrics w)"
    by (simp add: smoothGate_def Let_def)
qed

lemma suppressFrame_noiseFloor:
  "kAbsoluteMinFloor \<le> noiseFloorEstimate w \<Longrightarrow>
   kAbsoluteMinFloor \<le> noiseFloorEstimate (snd (snd (suppressFrame rnn d1 d2 level frame w)))
   \<and> kAbsoluteMinFloor \<le> noiseFloor (metrics (snd (snd (suppressFrame rnn d1 d2 level frame w))))"
  by (simp add: suppressFrame_def Let_def case_prod_beta applySoftSilence_keeps
      stages_keep_noiseFloor computeGateTarget_keeps updateNoiseFloor_published
      updateNoiseFloor_keeps)

lemma processFrame_noiseFloor:
  assumes "kAbsoluteMinFloor \<le> noiseFloorEstimate w"
    and "kAbsoluteMinFloor \<le> noiseFloor (metrics w)"
  shows "kAbsoluteMinFloor \<le> noiseFloorEstimate (snd (snd (processFrame rnn frame w)))
   \<and> kAbsoluteMinFloor \<le> noiseFloor (metrics (snd (snd (processFrame rnn frame w))))"
proof (cases "state w = None \<or> state2 w = None")
  case True
  with assms show ?thesis by (simp add: processFrame_null)
next
  case False
  then obtain d1 d2 where d: "state w = Some d1" "state2 w = Some d2" by auto
  show ?thesis
  proof (cases "suppressionLevel w \<le> 0")
    case True
    with d assms show ?thesis by (simp add: processFrame_bypass_eq bypassFrame_def Let_def)
  next
    case False
    with d show ?thesis
      using suppressFrame_noiseFloor [OF assms(1)] by (simp add: processFrame_suppress_eq)
  qed
qed

subsection \<open>Gate gain in binary32\<close>

lemma f32_overflow_pos: "0 < f32_overflow"
  by (simp add: f32_overflow_def)

lemma f32_of_real_in:
  "- f32_overflow < r \<Longrightarrow> r < f32_overflow \<Longrightarrow> f32_of_real r = Num r"
  by (simp add: f32_of_real_def)

lemma fmul_square_cases:
  "fmul x x = PosInf \<or> fmul x x = NaN \<or> (\<exists>r. fmul x x = Num r)"
proof (cases x)
  case (Num a)
  have "0 \<le> a * a" by simp
  with f32_overflow_pos have "\<not> a * a \<le> - f32_overflow" by linarith
  then show ?thesis using Num by (simp add: f32_of_real_def)
qed simp_all

lemma sum_squares_absorbs:
  "acc = PosInf \<or> acc = NaN \<Longrightarrow>
   foldl (\<lambda>sum x. fadd sum (fmul x x)) acc xs = PosInf
   \<or> foldl (\<lambda>sum x. fadd sum (fmul x x)) acc xs = NaN"
proof (induction xs arbitrary: acc)
  case Nil
  then show ?case by simp
next
  case (Cons x xs)
  from Cons.prems fmul_square_cases [of x]
  have "fadd acc (fmul x x) = PosInf \<or> fadd acc (fmul x x) = NaN"
    by auto
  then show ?case using Cons.IH by simp
qed

lemma computeRms32_overflow:
  assumes "fmul z z = PosInf"
  shows "computeRms32 (z # zs) kRNNoiseFrameSize = PosInf
         \<or> computeRms32 (z # zs) kRNNoiseFrameSize = NaN"
proof -
  have "fadd (Num 0) (fmul z z) = PosInf \<or> fadd (Num 0) (fmul z z) = NaN"
    using assms by simp
  then have "foldl (\<lambda>sum x. fadd sum (fmul x x)) (fadd (Num 0) (fmul z z)) (take 479 zs) = PosInf
      \<or> foldl (\<lambda>sum x. fadd sum (fmul x x)) (fadd (Num 0) (fmul z z)) (take 479 zs) = NaN"
    by (rule sum_squares_absorbs)
  then show ?thesis
    by (auto simp: computeRms32_def kRNNoiseFrameSize_def)
qed

lemma f32_NaN_absorbs:
  "fadd a NaN = NaN" "fadd NaN a = NaN" "fsub a NaN = NaN" "fsub NaN a = NaN"
  "fmul a NaN = NaN" "fmul NaN a = NaN" "fdiv a NaN = NaN" "fdiv NaN a = NaN"
  "\<not> flt a NaN" "\<not> flt NaN a" "\<not> fle a NaN" "\<not> fle NaN a"
  by (cases a; simp add: fsub_def)+

lemma std_clamp32_NaN: "std_clamp32 NaN lo hi = NaN"
  by (simp add: std_clamp32_def f32_NaN_absorbs)

lemma default_threshold_facts:
  "flt (Num 0) (fmul (Num 0.65) (Num 0.5))"
  "\<not> fle (Num 0.65) (Num 0)"
  "\<not> fle (fsub (Num 0.65) (Num kVadHysteresis)) (Num 0)"
  by (simp_all add: fsub_def kVadHysteresis_def f32_of_real_def f32_overflow_def)

lemma updateNoiseFloor32_seed:
  assumes "p = PosInf \<or> p = NaN"
    and "vadThreshold_32 w = Num 0.65" and "noiseFloorEstimate_32 w = Num 0"
  shows "noiseFloorEstimate_32 (updateNoiseFloor32 p (Num 0) w) = p"
    and "holdCounter_32 (updateNoiseFloor32 p (Num 0) w) = holdCounter_32 w"
    and "vadThreshold_32 (updateNoiseFloor32 p (Num 0) w) = Num 0.65"
    and "smoothGain_32 (updateNoiseFloor32 p (Num 0) w) = smoothGain_32 w"
  using assms default_threshold_facts(1)
  by (auto simp: updateNoiseFloor32_def Let_def case_prod_beta std_max32_def)

lemma computeGateTarget32_nan:
  assumes "p = PosInf \<or> p = NaN"
    and "vadThreshold_32 w = Num 0.65" and "noiseFloorEstimate_32 w = p"
    and "holdCounter_32 w \<le> 0"
  shows "fst (computeGateTarget32 (Num 0) p w) = NaN"
  using assms default_threshold_facts(2,3)
  by (auto simp: computeGateTarget32_def Let_def std_clamp32_NaN f32_NaN_absorbs
      kFloorMultiplier_def fsub_def)

lemma smoothGate32_nan:
  "currentGain_32 (metrics_32 (smoothGate32 NaN w)) = NaN"
  "smoothGain_32 (smoothGate32 NaN w) = NaN"
  by (simp_all add: smoothGate32_def Let_def std_clamp32_NaN f32_NaN_absorbs)

lemma gateFrame32_nan:
  assumes "computeRms32 frame kRNNoiseFrameSize = PosInf
           \<or> computeRms32 frame kRNNoiseFrameSize = NaN"
    and "vadThreshold_32 w = Num 0.65" and "noiseFloorEstimate_32 w = Num 0"
    and "holdCounter_32 w \<le> 0"
  shows "currentGain_32 (metrics_32 (gateFrame32 (Num 0) frame w)) = NaN"
proof -
  let ?p = "computeRms32 frame kRNNoiseFrameSize"
  let ?w1 = "updateNoiseFloor32 ?p (Num 0) w"
  have "fst (computeGateTarget32 (Num 0) ?p ?w1) = NaN"
    using assms(1) updateNoiseFloor32_seed(3,1) [OF assms(1,2,3)]
  proof (rule computeGateTarget32_nan)
    show "holdCounter_32 ?w1 \<le> 0"
      using assms(4) by (simp add: updateNoiseFloor32_seed(2) [OF assms(1,2,3)])
  qed
  then show ?thesis
    by (simp add: gateFrame32_def Let_def case_prod_beta smoothGate32_nan)
qed

lemma softSilenceLoop32_metrics:
  "metrics_32 (snd (softSilenceLoop32 sc f w)) = metrics_32 w"
  by (induction f arbitrary: w) (simp_all add: comfortNoiseSample32_def Let_def case_prod_beta)

lemma finishFrame32_gain:
  "currentGain_32 (metrics_32 (snd (finishFrame32 vad frame w))) = currentGain_32 (metrics_32 w)"
  by (simp add: finishFrame32_def applySoftSilence32_def Let_def case_prod_beta
      softSilenceLoop32_metrics)

lemma suppressFrame32_gain:
  "currentGain_32 (metrics_32 (snd (snd (suppressFrame32 rnn d1 d2 level frame w)))) =
   currentGain_32 (metrics_32
     (gateFrame32 (fst (denoiseAndFilter32 rnn d1 d2 level frame w))
        (fst (snd (denoiseAndFilter32 rnn d1 d2 level frame w)))
        (snd (snd (denoiseAndFilter32 rnn d1 d2 level frame w)))))"
  by (simp add: suppressFrame32_def Let_def case_prod_beta finishFrame32_gain)

lemma denoiseAndFilter32_keeps:
  "vadThreshold_32 (snd (snd (denoiseAndFilter32 rnn d1 d2 level frame w))) = vadThreshold_32 w"
  "noiseFloorEstimate_32 (snd (snd (denoiseAndFilter32 rnn d1 d2 level frame w)))
     = noiseFloorEstimate_32 w"
  "holdCounter_32 (snd (snd (denoiseAndFilter32 rnn d1 d2 level frame w))) = holdCounter_32 w"
  by (simp_all add: denoiseAndFilter32_def Let_def case_prod_beta)

lemma denoiseAndFilter32_stub_vad:
  "fst (denoiseAndFilter32 denoiser_stub32 d1 d2 level frame w) = Num 0"
  by (simp add: denoiseAndFilter32_def denoiser_stub32_def Let_def case_prod_beta std_max32_def)

lemma denoiseAndFilter32_stub_frame:
  "fst (snd (denoiseAndFilter32 denoiser_stub32 d1 d2 (Num 1) (replicate n (Num (2 ^ 67))) w))
     = fst (filterFrame32 (hpf_32 w) (lpf_32 w) (replicate n (Num (2 ^ 67))))"
  by (simp add: denoiseAndFilter32_def denoiser_stub32_def Let_def case_prod_beta
      f32_of_real_def f32_overflow_def)

lemma wrapper32_ready_fields:
  "state_32 wrapper32_ready = Some ()" "state2_32 wrapper32_ready = Some ()"
  "suppressionLevel_32 wrapper32_ready = Num 1"
  "vadThreshold_32 wrapper32_ready = Num 0.65"
  "noiseFloorEstimate_32 wrapper32_ready = Num 0"
  "holdCounter_32 wrapper32_ready = 0"
  "hpf_32 wrapper32_ready =
     \<lparr>b0_32 = Num 0.992631, b1_32 = Num (- 1.985261), b2_32 = Num 0.992631,
      a1_32 = Num (- 1.985199), a2_32 = Num 0.985323,
      x1_32 = Num 0, x2_32 = Num 0, y1_32 = Num 0, y2_32 = Num 0\<rparr>"
  "lpf_32 wrapper32_ready =
     \<lparr>b0_32 = Num 0.155029, b1_32 = Num 0.310059, b2_32 = Num 0.155029,
      a1_32 = Num (- 0.620209), a2_32 = Num 0.240326,
      x1_32 = Num 0, x2_32 = Num 0, y1_32 = Num 0, y2_32 = Num 0\<rparr>"
  by (simp_all add: wrapper32_ready_def init32_def initFilters32_def reset32_def Let_def
      RNNoiseWrapper32_default_def BiquadState32_default_def)

lemma first_filtered_sample:
  "\<exists>z zs. fst (filterFrame32 (hpf_32 wrapper32_ready) (lpf_32 wrapper32_ready)
               (Num (2 ^ 67) # rest)) = z # zs \<and> fmul z z = PosInf"
  by (simp add: wrapper32_ready_fields process32_def fsub_def Let_def case_prod_beta
      f32_of_real_def f32_overflow_def)

lemma denoiseAndFilter32_keeps_gate:
  "smoothGain_32 (snd (snd (denoiseAndFilter32 rnn d1 d2 level frame w))) = smoothGain_32 w"
  "calibrationFrames_32 (snd (snd (denoiseAndFilter32 rnn d1 d2 level frame w)))
     = calibrationFrames_32 w"
  by (simp_all add: denoiseAndFilter32_def Let_def case_prod_beta)

lemma filterFrame32_silence:
  "filterFrame32 (hpf_32 wrapper32_ready) (lpf_32 wrapper32_ready) (replicate n (Num 0))
     = (replicate n (Num 0), hpf_32 wrapper32_ready, lpf_32 wrapper32_ready)"
  by (induction n)
    (simp_all add: wrapper32_ready_fields process32_def fsub_def Let_def
      f32_of_real_def f32_overflow_def)

lemma sum_squares_silence:
  "foldl (\<lambda>sum x. fadd sum (fmul x x)) (Num 0) (replicate n (Num 0)) = Num 0"
  by (induction n) (simp_all add: f32_of_real_def f32_overflow_def)

lemma computeRms32_silence:
  "computeRms32 (replicate 480 (Num 0)) kRNNoiseFrameSize = Num 0"
  by (simp add: computeRms32_def kRNNoiseFrameSize_def sum_squares_silence
      f32_of_real_def f32_overflow_def)

lemma denoiseAndFilter32_silence:
  "fst (snd (denoiseAndFilter32 denoiser_stub32 d1 d2 (Num 1) (replicate n (Num 0))
       wrapper32_ready)) = replicate n (Num 0)"
  by (simp add: denoiseAndFilter32_def denoiser_stub32_def Let_def case_prod_beta
      f32_of_real_def f32_overflow_def filterFrame32_silence)

lemma gateFrame32_silence:
  assumes "vadThreshold_32 w = Num 0.65" and "noiseFloorEstimate_32 w = Num 0"
    and "holdCounter_32 w = 0" and "smoothGain_32 w = Num 1" and "calibrationFrames_32 w = 0"
  shows "currentGain_32 (metrics_32 (gateFrame32 (Num 0) (replicate 480 (Num 0)) w)) = Num (3 / 5)"
  using assms
  by (simp add: gateFrame32_def computeRms32_silence [unfolded kRNNoiseFrameSize_def]
      updateNoiseFloor32_def
      computeGateTarget32_def smoothGate32_def std_max32_def std_clamp32_def fsub_def
      Let_def tuning_defs f32_of_real_def f32_overflow_def)

lemma wrapper32_ready_gate_fields:
  "smoothGain_32 wrapper32_ready = Num 1" "calibrationFrames_32 wrapper32_ready = 0"
  by (simp_all add: wrapper32_ready_def init32_def initFilters32_def Let_def)

text \<open>
  Claim C7 says that the gate gain stored to the metrics is always in \<open>[0, 1]\<close>. The
  code on the wrapper fresh after \<open>init\<close>, with a denoiser that passes the frame
  through and reports VAD 0: for a frame of silence the stored gain is \<open>3/5\<close>; for a
  frame of 480 samples of value \<open>2^67\<close>, each finite in binary32, the square of the
  first filtered sample overflows, so the post-filter RMS is infinite or NaN, the noise
  floor is seeded with it, the gate ratio is NaN, both calls of \<open>std::clamp\<close> return
  their NaN argument, and NaN is stored as the gate gain: neither \<open>0 \<le> gain\<close> nor
  \<open>gain \<le> 1\<close> holds.
\<close>

theorem gate_gain_nan_on_overflow:
  "currentGain_32 (metrics_32 (snd (snd (processFrame32 denoiser_stub32
       (replicate 480 (Num 0)) wrapper32_ready)))) = Num (3 / 5)
   \<and> currentGain_32 (metrics_32 (snd (snd (processFrame32 denoiser_stub32
       (replicate 480 (Num (2 ^ 67))) wrapper32_ready)))) = NaN
   \<and> \<not> fle (Num 0) (currentGain_32 (metrics_32 (snd (snd (processFrame32 denoiser_stub32
       (replicate 480 (Num (2 ^ 67))) wrapper32_ready)))))
   \<and> \<not> fle (currentGain_32 (metrics_32 (snd (snd (processFrame32 denoiser_stub32
       (replicate 480 (Num (2 ^ 67))) wrapper32_ready))))) (Num 1)"
proof -
  let ?silence = "replicate 480 (Num 0)"
  let ?quiet = "denoiseAndFilter32 denoiser_stub32 () () (Num 1) ?silence wrapper32_ready"
  have "currentGain_32 (metrics_32 (gateFrame32 (Num 0) ?silence (snd (snd ?quiet))))
      = Num (3 / 5)"
    by (rule gateFrame32_silence)
      (simp_all add: denoiseAndFilter32_keeps denoiseAndFilter32_keeps_gate
        wrapper32_ready_fields wrapper32_ready_gate_fields)
  then have "currentGain_32 (metrics_32 (snd (snd (suppressFrame32 denoiser_stub32 () () (Num 1)
      ?silence wrapper32_ready)))) = Num (3 / 5)"
    by (simp only: suppressFrame32_gain denoiseAndFilter32_stub_vad denoiseAndFilter32_silence)
  then have quiet: "currentGain_32 (metrics_32 (snd (snd (processFrame32 denoiser_stub32 ?silence
      wrapper32_ready)))) = Num (3 / 5)"
    by (simp add: processFrame32_def wrapper32_ready_fields)
  let ?frame = "replicate 480 (Num (2 ^ 67))"
  let ?front = "denoiseAndFilter32 denoiser_stub32 () () (Num 1) ?frame wrapper32_ready"
  have split: "?frame = Num (2 ^ 67) # replicate 479 (Num (2 ^ 67))"
    by (simp add: numeral_eq_Suc)
  have "fst (snd ?front) = fst (filterFrame32 (hpf_32 wrapper32_ready) (lpf_32 wrapper32_ready)
      (Num (2 ^ 67) # replicate 479 (Num (2 ^ 67))))"
    by (subst split [symmetric]) (rule denoiseAndFilter32_stub_frame)
  moreover obtain z zs where "fst (filterFrame32 (hpf_32 wrapper32_ready) (lpf_32 wrapper32_ready)
      (Num (2 ^ 67) # replicate 479 (Num (2 ^ 67)))) = z # zs" and sq: "fmul z z = PosInf"
    using first_filtered_sample [of "replicate 479 (Num (2 ^ 67))"] by blast
  ultimately have z: "fst (snd ?front) = z # zs" "fmul z z = PosInf"
    by simp_all
  have rms: "computeRms32 (fst (snd ?front)) kRNNoiseFrameSize = PosInf
      \<or> computeRms32 (fst (snd ?front)) kRNNoiseFrameSize = NaN"
    using computeRms32_overflow [OF z(2), of zs] by (simp only: z(1))
  have "currentGain_32 (metrics_32 (gateFrame32 (Num 0) (fst (snd ?front)) (snd (snd ?front))))
      = NaN"
    using rms
    by (rule gateFrame32_nan) (simp_all add: denoiseAndFilter32_keeps wrapper32_ready_fields)
  then have "currentGain_32 (metrics_32 (snd (snd (suppressFrame32 denoiser_stub32 () () (Num 1)
      ?frame wrapper32_ready)))) = NaN"
    by (simp only: suppressFrame32_gain denoiseAndFilter32_stub_vad)
  then have "currentGain_32 (metrics_32 (snd (snd (processFrame32 denoiser_stub32 ?frame
      wrapper32_ready)))) = NaN"
    by (simp add: processFrame32_def wrapper32_ready_fields)
  then show ?thesis using quiet by simp
qed

text \<open>
  What the clamp of the smoothing step does ensure: the stored gain is NaN or lies in
  \<open>[0, 1]\<close>.
\<close>

lemma std_clamp32_unit:
  "std_clamp32 v (Num 0) (Num 1) = NaN
   \<or> (\<exists>r. std_clamp32 v (Num 0) (Num 1) = Num r \<and> 0 \<le> r \<and> r \<le> 1)"
  by (cases v) (auto simp: std_clamp32_def)

lemma processFrame32_gain_range:
  assumes "state_32 w \<noteq> None" and "state2_32 w \<noteq> None"
  shows "currentGain_32 (metrics_32 (snd (snd (processFrame32 rnn frame w)))) = NaN
   \<or> (\<exists>r. currentGain_32 (metrics_32 (snd (snd (processFrame32 rnn frame w)))) = Num r
          \<and> 0 \<le> r \<and> r \<le> 1)"
proof -
  from assms obtain d1 d2 where d: "state_32 w = Some d1" "state2_32 w = Some d2" by auto
  have g: "currentGain_32 (metrics_32 (gateFrame32 v f u)) = NaN
      \<or> (\<exists>r. currentGain_32 (metrics_32 (gateFrame32 v f u)) = Num r \<and> 0 \<le> r \<and> r \<le> 1)"
    for v f and u :: "'a RNNoiseWrapper32"
    using std_clamp32_unit
    by (simp add: gateFrame32_def smoothGate32_def Let_def case_prod_beta kMinGateGain_def)
  show ?thesis
  proof (cases "fle (suppressionLevel_32 w) (Num 0)")
    case True
    with d show ?thesis by (simp add: processFrame32_def bypassFrame32_def Let_def)
  next
    case False
    with d g show ?thesis by (simp add: processFrame32_def suppressFrame32_gain)
  qed
qed

end
